theory Spec2Isabelle
  imports Main "HOL-Library.Finite_Map"
begin

section \<open>JavaScript data\<close>

text \<open>
  Document data is plain JSON-like data.  Objects are finite maps from property names to
  values, so two objects with the same properties are equal whatever the order in which
  the properties were written; this is the equality lodash's \<open>isEqual\<close> computes on such
  data, and a deep clone (\<open>cloneDeep\<close>) of a value is the value itself.  Numbers are
  integers (no NaN, no fractions).  Object identity is not part of a \<open>jsval\<close>; where the
  source depends on two names denoting one object (the collection array of the store) an
  explicit heap is used instead.
\<close>

datatype jsval =
    JUndefined
  | JNull
  | JBool bool
  | JNum int
  | JStr string
  | JArr "jsval list"
  | JObj "(string, jsval) fmap"

type_synonym fields = "(string, jsval) fmap"

text \<open>JavaScript truthiness, as tested by \<open>if (x)\<close>, \<open>!x\<close>, \<open>a || b\<close>.\<close>

fun truthy :: "jsval \<Rightarrow> bool" where
  "truthy JUndefined = False"
| "truthy JNull = False"
| "truthy (JBool b) = b"
| "truthy (JNum n) = (n \<noteq> 0)"
| "truthy (JStr s) = (s \<noteq> [])"
| "truthy (JArr xs) = True"
| "truthy (JObj m) = True"

text \<open>
  A property name addresses an array element when it is the canonical decimal numeral of
  an index: digits only, no leading zero except for \<open>0\<close> itself (lodash's \<open>isIndex\<close> on
  strings, \<open>/^(?:0|[1-9]\d*)$/\<close>).
\<close>

definition is_digit :: "char \<Rightarrow> bool" where
  "is_digit c = (48 \<le> (of_char c :: nat) \<and> (of_char c :: nat) \<le> 57)"

fun digits_val :: "nat \<Rightarrow> string \<Rightarrow> nat" where
  "digits_val acc [] = acc"
| "digits_val acc (c # cs) = digits_val (acc * 10 + ((of_char c :: nat) - 48)) cs"

definition array_index :: "string \<Rightarrow> nat option" where
  "array_index s =
     (if s \<noteq> [] \<and> list_all is_digit s \<and> (hd s \<noteq> CHR ''0'' \<or> length s = 1)
      then Some (digits_val 0 s) else None)"

section \<open>Logging (utils/logger.js)\<close>

text \<open>
  The logger prints to the console.  The model keeps the printed lines: the level and the
  arguments that are strings (object arguments are not rendered).
\<close>

datatype level = Info | Warn | Error

type_synonym log_entry = "level \<times> string list"

section \<open>The subscription registry (piniafire.js)\<close>

datatype ref_type = Document | Collection | Query

text \<open>
  A reference of the remote store.  \<open>ref_id\<close> is what the key template makes of \<open>ref.id\<close>:
  the id of a document or collection reference, the text \<open>undefined\<close> for a query, which has
  no id.  \<open>ref_path\<close> is the path of a document reference.
\<close>

record ref =
  ref_id :: string
  ref_type :: ref_type
  ref_path :: string

text \<open>The write requests issued to the remote store.\<close>

datatype remote_call = UpdateDoc ref fields | DeleteDoc ref

text \<open>
  An entry of \<open>unsubs\<close>.  The unsubscribe function returned by \<open>onSnapshot\<close> is named by
  the number of the listener it detaches; the entry's \<open>remove\<close> closure is
  \<open>remove(id, name)\<close> on the entry's own id and name.
\<close>

record item =
  item_id :: string
  item_name :: string
  item_unsub :: nat
  item_type :: ref_type

text \<open>
  The module state and the effects on the surroundings: the table \<open>unsubs\<close>, the
  listeners opened so far by \<open>onSnapshot\<close>, the listeners whose unsubscribe function has
  been invoked (in order), the log, and the write requests issued to the remote store.
\<close>

record world =
  unsubs :: "(string, item) fmap"
  listeners :: nat
  unsubscribed :: "nat list"
  log :: "log_entry list"
  remote :: "remote_call list"

definition getStoreKey :: "string \<Rightarrow> string \<Rightarrow> string" where
  "getStoreKey ident name = ident @ '':'' @ name"

definition logger :: "level \<Rightarrow> string list \<Rightarrow> world \<Rightarrow> world" where
  "logger lv args w = w\<lparr>log := log w @ [(lv, args)]\<rparr>"

definition pick :: "string \<Rightarrow> string \<Rightarrow> world \<Rightarrow> item option \<times> world" where
  "pick ident name w =
     (let itemKey = getStoreKey ident name;
          item = fmlookup (unsubs w) itemKey
      in (item, logger Info [''pick:'', ident, name] w))"

definition remove :: "string \<Rightarrow> string \<Rightarrow> world \<Rightarrow> world" where
  "remove ident name w =
     (let itemKey = getStoreKey ident name in
      case fmlookup (unsubs w) itemKey of
        None \<Rightarrow> w
      | Some item \<Rightarrow> logger Info [''remove:'', ident, name] (w\<lparr>unsubs := fmdrop itemKey (unsubs w)\<rparr>))"

definition store :: "string \<Rightarrow> string \<Rightarrow> nat \<Rightarrow> ref_type \<Rightarrow> world \<Rightarrow> world" where
  "store ident name unsub type w =
     (let itemKey = getStoreKey ident name;
          item = \<lparr>item_id = ident, item_name = name, item_unsub = unsub, item_type = type\<rparr>
      in w\<lparr>unsubs := fmupd itemKey item (unsubs w)\<rparr>)"

text \<open>
  \<open>unbind\<close> reads \<open>item.unsub\<close> of whatever \<open>pick\<close> returns: with no entry for the key it
  throws a TypeError (\<open>Inl\<close>), after \<open>pick\<close> has logged.
\<close>

definition unbind :: "string \<Rightarrow> ref \<Rightarrow> world \<Rightarrow> string \<times> world + world" where
  "unbind inst_id r w =
     (case pick inst_id (ref_id r) w of
        (None, w1) \<Rightarrow> Inl (''TypeError'', w1)
      | (Some item, w1) \<Rightarrow>
          Inr (remove (item_id item) (item_name item)
                 (w1\<lparr>unsubscribed := unsubscribed w1 @ [item_unsub item]\<rparr>)))"

section \<open>Snapshots and document materialisation\<close>

text \<open>
  A document snapshot as the listener delivers it: \<open>exists()\<close>, \<open>id\<close>, \<open>ref.path\<close>,
  \<open>metadata\<close> and \<open>data()\<close> (undefined, here \<open>None\<close>, for a missing document).
\<close>

record snapshot =
  snap_exists :: bool
  snap_id :: string
  snap_path :: string
  snap_metadata :: jsval
  snap_data :: "fields option"

text \<open>
  \<open>{ __id, __path, __metadata, ...doc }\<close>: the spread comes last, so a data field with a
  reserved name overwrites the reserved entry.
\<close>

definition makeDocumentData :: "snapshot \<Rightarrow> fields" where
  "makeDocumentData s =
     (let doc = (case snap_data s of None \<Rightarrow> fmempty | Some d \<Rightarrow> d)
      in fmap_of_list
           [(''__id'', JStr (snap_id s)),
            (''__path'', JStr (snap_path s)),
            (''__metadata'', snap_metadata s)] ++\<^sub>f doc)"

section \<open>Collection reconciliation\<close>

text \<open>
  The bound collection is one JavaScript array used in two ways at once: its elements are
  the documents in server order, and the document ids are extra properties of the same
  array (\<open>docs[id] = newDoc\<close>).  An element and a property can be the same object, and the
  duplicate-add branch mutates that object, so documents live in a heap and the array
  holds addresses.  \<open>None\<close> in \<open>elems\<close> is a hole of a sparse array.
\<close>

record coll =
  heap :: "fields list"
  elems :: "nat option list"
  props :: "(string, nat) fmap"

definition empty_coll :: coll where
  "empty_coll = \<lparr>heap = [], elems = [], props = fmempty\<rparr>"

text \<open>\<open>docs[id]\<close>: an element when the id is an array index, a named property otherwise.\<close>

definition get_prop :: "coll \<Rightarrow> string \<Rightarrow> nat option" where
  "get_prop c k =
     (case array_index k of
        Some n \<Rightarrow> (if n < length (elems c) then elems c ! n else None)
      | None \<Rightarrow> fmlookup (props c) k)"

text \<open>\<open>docs[n] = doc\<close>: writing past the end extends the array, leaving holes.\<close>

definition set_elem :: "nat \<Rightarrow> nat \<Rightarrow> coll \<Rightarrow> coll" where
  "set_elem n a c =
     (if n < length (elems c) then c\<lparr>elems := (elems c)[n := Some a]\<rparr>
      else c\<lparr>elems := elems c @ replicate (n - length (elems c)) None @ [Some a]\<rparr>)"

definition set_prop :: "string \<Rightarrow> nat \<Rightarrow> coll \<Rightarrow> coll" where
  "set_prop k a c =
     (case array_index k of
        Some n \<Rightarrow> set_elem n a c
      | None \<Rightarrow> c\<lparr>props := fmupd k a (props c)\<rparr>)"

text \<open>\<open>delete docs[id]\<close>: deleting an element leaves a hole and keeps the length.\<close>

definition delete_prop :: "string \<Rightarrow> coll \<Rightarrow> coll" where
  "delete_prop k c =
     (case array_index k of
        Some n \<Rightarrow> (if n < length (elems c) then c\<lparr>elems := (elems c)[n := None]\<rparr> else c)
      | None \<Rightarrow> c\<lparr>props := fmdrop k (props c)\<rparr>)"

text \<open>
  \<open>splice(start, deleteCount, item?)\<close> for a non-negative start: the start is clamped to
  the length, and at most the elements that exist are deleted.
\<close>

definition splice :: "nat \<Rightarrow> nat \<Rightarrow> 'a list \<Rightarrow> 'a list \<Rightarrow> 'a list" where
  "splice start deleteCount new xs = take start xs @ new @ drop (start + deleteCount) xs"

definition alloc :: "fields \<Rightarrow> coll \<Rightarrow> nat \<times> coll" where
  "alloc d c = (length (heap c), c\<lparr>heap := heap c @ [d]\<rparr>)"

datatype change_type = Added | Modified | Removed

text \<open>
  One entry of \<open>querySnapshot.docChanges()\<close>.  The listener reports a non-negative
  \<open>newIndex\<close> for added and modified documents and a non-negative \<open>oldIndex\<close> for removed
  ones, the only places where the handler reads them.
\<close>

record change =
  ctype :: change_type
  cdoc :: snapshot
  newIndex :: nat
  oldIndex :: nat

definition apply_change :: "coll \<Rightarrow> change \<Rightarrow> coll" where
  "apply_change docs ch =
     (let did = snap_id (cdoc ch) in
      case ctype ch of
        Added \<Rightarrow>
          (case get_prop docs did of
             None \<Rightarrow>
               (let newDoc = fmupd ''__index'' (JNum (int (newIndex ch))) (makeDocumentData (cdoc ch));
                    (a, docs1) = alloc newDoc docs;
                    docs2 = docs1\<lparr>elems := splice (newIndex ch) 0 [Some a] (elems docs1)\<rparr>
                in set_prop did a docs2)
           | Some a \<Rightarrow>
               (let docs1 = docs\<lparr>heap := (heap docs)[a := fmupd ''__index'' (JNum (int (newIndex ch))) (heap docs ! a)]\<rparr>
                in set_elem (newIndex ch) a docs1))
      | Modified \<Rightarrow>
          (let (a, docs1) = alloc (makeDocumentData (cdoc ch)) docs
           in docs1\<lparr>elems := splice (newIndex ch) 1 [Some a] (elems docs1)\<rparr>)
      | Removed \<Rightarrow>
          delete_prop did (docs\<lparr>elems := splice (oldIndex ch) 1 [] (elems docs)\<rparr>))"

text \<open>\<open>docChanges().forEach\<close>: the changes are applied one after the other, in order.\<close>

definition apply_changes :: "coll \<Rightarrow> change list \<Rightarrow> coll" where
  "apply_changes docs chs = foldl apply_change docs chs"




section \<open>Binding a listener (bind)\<close>

text \<open>
  Names: a leading underscore of a source name is written \<open>u_\<close> and a leading dollar
  \<open>d_\<close> (\<open>_resolve\<close> is \<open>u_resolve\<close>, \<open>$update\<close> is \<open>d_update\<close>).

  The hooks of \<open>options\<close> are callbacks of the caller.  A hook is modelled by what the
  handler can see of it: it returns (\<open>None\<close>) or throws an error with a message
  (\<open>Some msg\<close>); it is taken to read the document it is given, not to change it.
\<close>

record options =
  beforeUpdate :: "(fields \<Rightarrow> string option) option"
  afterUpdate :: "(fields \<Rightarrow> string option) option"

text \<open>
  The store instance as \<open>bind\<close> uses it: \<open>$id\<close>, the object-valued state properties
  addressed as \<open>state[field]\<close>, the array \<open>$state.collection\<close>, and the instance properties
  that have been assigned that array by \<open>piniaInstance[field] = docs\<close>.
\<close>

record pinia_instance =
  inst_id :: string
  inst_state :: "(string, fields) fmap"
  inst_collection :: coll
  inst_assigned :: "string list"

text \<open>
  What the promise is resolved with.  For a collection it is the bound array itself; the
  model records its contents at the time of the call.
\<close>

datatype resolved = RFalse | RDoc fields | RDocs coll

datatype settlement = Resolve resolved | Reject string

text \<open>
  The closure of one call of \<open>bind\<close>: its arguments, the flag \<open>isInitialised\<close>, and the
  calls made so far to the promise's \<open>resolve\<close> and \<open>reject\<close>.
\<close>

record closure =
  c_field :: string
  c_ref :: ref
  c_options :: options
  isInitialised :: bool
  settled :: "settlement list"

text \<open>
  \<open>escaped\<close> collects the exceptions that left a listener callback: the callback stops
  there, and what it had done before stays done.
\<close>

record bsys =
  world :: world
  inst :: pinia_instance
  clo :: closure
  escaped :: "string list"

datatype payload = DocSnapshot snapshot | QuerySnapshot "change list"

datatype event = Next payload | Fail string

definition u_resolve :: "resolved \<Rightarrow> bsys \<Rightarrow> bsys" where
  "u_resolve val s =
     (if \<not> isInitialised (clo s)
      then s\<lparr>clo := (clo s)\<lparr>isInitialised := True, settled := settled (clo s) @ [Resolve val]\<rparr>\<rparr>
      else s)"

definition throw :: "string \<Rightarrow> bsys \<Rightarrow> bsys" where
  "throw e s = s\<lparr>escaped := escaped s @ [e]\<rparr>"

text \<open>
  A query snapshot has no \<open>exists\<close> method, so the document handler throws on one.
  \<open>Object.assign(state[field], doc)\<close> throws when \<open>state[field]\<close> is undefined.
\<close>

definition handleDocSnapshotUpdate :: "payload \<Rightarrow> bsys \<Rightarrow> bsys" where
  "handleDocSnapshotUpdate p s =
     (case p of
        QuerySnapshot chs \<Rightarrow> throw ''TypeError'' s
      | DocSnapshot snapshot \<Rightarrow>
          if \<not> snap_exists snapshot then u_resolve RFalse s
          else
            let doc = makeDocumentData snapshot;
                s1 = (case beforeUpdate (c_options (clo s)) of
                        None \<Rightarrow> s
                      | Some hook \<Rightarrow>
                          (case hook doc of
                             None \<Rightarrow> s
                           | Some msg \<Rightarrow>
                               s\<lparr>world := logger Error [''beforeUpdate handler failed'', msg] (world s)\<rparr>))
            in (case fmlookup (inst_state (inst s1)) (c_field (clo s1)) of
                  None \<Rightarrow> throw ''TypeError'' s1
                | Some target \<Rightarrow>
                    (let s2 = s1\<lparr>inst := (inst s1)\<lparr>inst_state :=
                                 fmupd (c_field (clo s1)) (target ++\<^sub>f doc) (inst_state (inst s1))\<rparr>\<rparr>
                     in (case afterUpdate (c_options (clo s2)) of
                           None \<Rightarrow> u_resolve (RDoc doc) s2
                         | Some hook \<Rightarrow>
                             (case hook doc of
                                None \<Rightarrow> u_resolve (RDoc doc) s2
                              | Some msg \<Rightarrow> throw msg s2)))))"

text \<open>
  The collection handler first reads \<open>$state.collection\<close> and assigns it to
  \<open>piniaInstance[field]\<close>; a document snapshot has no \<open>docChanges\<close>, so it throws after that.
\<close>

definition handleCollectionSnapshotUpdate :: "payload \<Rightarrow> bsys \<Rightarrow> bsys" where
  "handleCollectionSnapshotUpdate p s =
     (let docs = inst_collection (inst s);
          s1 = s\<lparr>inst := (inst s)\<lparr>inst_assigned := List.insert (c_field (clo s)) (inst_assigned (inst s))\<rparr>\<rparr>
      in (case p of
            DocSnapshot snapshot \<Rightarrow> throw ''TypeError'' s1
          | QuerySnapshot chs \<Rightarrow>
              (let docs' = apply_changes docs chs;
                   s2 = s1\<lparr>inst := (inst s1)\<lparr>inst_collection := docs'\<rparr>\<rparr>
               in u_resolve (RDocs docs') s2)))"

definition handleError :: "string \<Rightarrow> bsys \<Rightarrow> bsys" where
  "handleError e s =
     (let w1 = logger Error [inst_id (inst s) @ '' error'', e] (world s);
          w2 = remove (inst_id (inst s)) (ref_id (c_ref (clo s))) w1;
          s1 = s\<lparr>world := w2\<rparr>
      in if \<not> isInitialised (clo s1)
         then s1\<lparr>clo := (clo s1)\<lparr>isInitialised := True, settled := settled (clo s1) @ [Reject e]\<rparr>\<rparr>
         else s1)"

definition updateHandler :: "bsys \<Rightarrow> payload \<Rightarrow> bsys \<Rightarrow> bsys" where
  "updateHandler s0 =
     (if ref_type (c_ref (clo s0)) = Document
      then handleDocSnapshotUpdate else handleCollectionSnapshotUpdate)"

text \<open>
  \<open>bind\<close> itself: open the listener with the two callbacks, then register its unsubscribe
  function.  The callbacks run later, when the listener delivers.
\<close>

definition bind :: "pinia_instance \<Rightarrow> string \<Rightarrow> ref \<Rightarrow> options \<Rightarrow> world \<Rightarrow> bsys" where
  "bind piniaInstance field r opts w =
     (let unsub = listeners w;
          w1 = w\<lparr>listeners := Suc (listeners w)\<rparr>;
          w2 = store (inst_id piniaInstance) (ref_id r) unsub (ref_type r) w1
      in \<lparr>world = w2, inst = piniaInstance,
          clo = \<lparr>c_field = field, c_ref = r, c_options = opts, isInitialised = False, settled = []\<rparr>,
          escaped = []\<rparr>)"

definition deliver :: "event \<Rightarrow> bsys \<Rightarrow> bsys" where
  "deliver ev s = (case ev of Next p \<Rightarrow> updateHandler s p s | Fail e \<Rightarrow> handleError e s)"

fun run :: "bsys \<Rightarrow> event list \<Rightarrow> bsys" where
  "run s [] = s"
| "run s (ev # evs) = run (deliver ev s) evs"

text \<open>The callback for this payload runs to its end: no exception leaves it.\<close>

definition returns_normally :: "payload \<Rightarrow> bsys \<Rightarrow> bool" where
  "returns_normally p s = (escaped (updateHandler s p s) = escaped s)"

section \<open>Properties and lodash paths\<close>

text \<open>
  \<open>own_prop v k\<close> is the own property \<open>k\<close> of \<open>v\<close>, if there is one: a field of an
  object, an element of an array.  The model covers plain data: \<open>length\<close> and other
  non-index properties of arrays, the index and \<open>length\<close> properties of strings, and
  inherited properties are not represented.
\<close>

fun own_prop :: "jsval \<Rightarrow> string \<Rightarrow> jsval option" where
  "own_prop (JObj m) k = fmlookup m k"
| "own_prop (JArr xs) k =
     (case array_index k of
        Some n \<Rightarrow> (if n < length xs then Some (xs ! n) else None)
      | None \<Rightarrow> None)"
| "own_prop v k = None"

text \<open>\<open>v[k]\<close> for a \<open>v\<close> that is not null or undefined.\<close>

definition js_get :: "jsval \<Rightarrow> string \<Rightarrow> jsval" where
  "js_get v k = (case own_prop v k of Some x \<Rightarrow> x | None \<Rightarrow> JUndefined)"

text \<open>\<open>v[k] = x\<close>: writing an array past its end fills the gap with undefined.\<close>

fun assign :: "jsval \<Rightarrow> string \<Rightarrow> jsval \<Rightarrow> jsval" where
  "assign (JObj m) k x = JObj (fmupd k x m)"
| "assign (JArr xs) k x =
     (case array_index k of
        Some n \<Rightarrow>
          JArr (if n < length xs then xs[n := x]
                else xs @ replicate (n - length xs) JUndefined @ [x])
      | None \<Rightarrow> JArr xs)"
| "assign v k x = v"

fun isObject :: "jsval \<Rightarrow> bool" where
  "isObject (JObj m) = True"
| "isObject (JArr xs) = True"
| "isObject v = False"

fun isArray :: "jsval \<Rightarrow> bool" where
  "isArray (JArr xs) = True"
| "isArray v = False"

text \<open>
  The lodash functions are those of the library's documentation, on path strings.  A path
  string is a single key when it has no dot or names a property of the object itself;
  otherwise it is split at its dots.  Bracket syntax in paths, and the library's refusal
  to write the keys \<open>__proto__\<close>, \<open>constructor\<close> and \<open>prototype\<close>, are not modelled.
\<close>

fun stringToPath :: "string \<Rightarrow> string list" where
  "stringToPath [] = [[]]"
| "stringToPath (c # cs) =
     (if c = CHR ''.'' then [] # stringToPath cs
      else (case stringToPath cs of
              [] \<Rightarrow> [[c]]
            | k # ks \<Rightarrow> (c # k) # ks))"

definition castPath :: "string \<Rightarrow> jsval \<Rightarrow> string list" where
  "castPath p object =
     (if CHR ''.'' \<notin> set p \<or> own_prop object p \<noteq> None then [p] else stringToPath p)"

fun hasPath :: "jsval \<Rightarrow> string list \<Rightarrow> bool" where
  "hasPath object [] = False"
| "hasPath object [k] = (own_prop object k \<noteq> None)"
| "hasPath object (k # ks) =
     (case own_prop object k of None \<Rightarrow> False | Some v \<Rightarrow> hasPath v ks)"

definition lodash_has :: "jsval \<Rightarrow> string \<Rightarrow> bool" where
  "lodash_has object p = hasPath object (castPath p object)"

fun baseGet :: "jsval \<Rightarrow> string list \<Rightarrow> jsval" where
  "baseGet object [] = object"
| "baseGet object (k # ks) =
     (if object = JNull \<or> object = JUndefined then JUndefined
      else baseGet (js_get object k) ks)"

definition lodash_get :: "jsval \<Rightarrow> string \<Rightarrow> jsval" where
  "lodash_get object p = baseGet object (castPath p object)"

text \<open>
  \<open>set\<close> walks the path; where a step does not lead to an object it puts a fresh array
  (when the next key is an index) or a fresh object there, and goes on.
\<close>

fun baseSet :: "jsval \<Rightarrow> string list \<Rightarrow> jsval \<Rightarrow> jsval" where
  "baseSet nested [] x = nested"
| "baseSet nested [k] x = assign nested k x"
| "baseSet nested (k # k' # ks) x =
     (let objValue = js_get nested k;
          newValue = (if isObject objValue then objValue
                      else if array_index k' \<noteq> None then JArr [] else JObj fmempty)
      in assign nested k (baseSet newValue (k' # ks) x))"

definition lodash_set :: "jsval \<Rightarrow> string \<Rightarrow> jsval \<Rightarrow> jsval" where
  "lodash_set object p x =
     (if \<not> isObject object then object else baseSet object (castPath p object) x)"

definition isEqual :: "jsval \<Rightarrow> jsval \<Rightarrow> bool" where
  "isEqual a b = (a = b)"

definition cloneDeep :: "jsval \<Rightarrow> jsval" where
  "cloneDeep v = v"


text \<open>
  \<open>{...v}\<close>: the properties of an object; nothing for undefined, null, numbers and
  booleans.  (An array or a string would spread its indices; the callers here pass objects
  or undefined.)
\<close>

fun spread :: "jsval \<Rightarrow> fields" where
  "spread (JObj m) = m"
| "spread v = fmempty"

section \<open>The store (store.js)\<close>

text \<open>
  The store that \<open>defineFirebaseStore(options)\<close> defines with its document actions
  (\<open>useDoc\<close> is not false), the plugin installed or not.  The three lifecycle values
  are the module's constants, with the spelling of the source.
\<close>

datatype lifecycle = UNINITIALIZED | INITITALIZING | INITIALIZED

text \<open>
  The state of a store instance, as \<open>state()\<close> lays it out.  \<open>user_state\<close> holds the
  properties of the caller's own state, taken to have other names than the built-in ones.
\<close>

record store_state =
  u_collectionPath :: string
  u_initializedState :: lifecycle
  isInitialized :: bool
  isFetching :: bool
  collection :: coll
  query :: jsval
  doc :: jsval
  user_state :: fields

text \<open>
  Callbacks of the caller (\<open>onValidationSuccess\<close>, \<open>onValidationError\<close>,
  \<open>appendToCreated\<close>, \<open>appendToUpdated\<close>) are modelled by their outcome on their
  arguments: a returned value or a thrown error with its message.
\<close>

datatype handler_name = OnValidationSuccess | OnValidationError | AppendToCreated | AppendToUpdated

datatype outcome = Returns jsval | Throws string

type_synonym handler = "jsval list \<Rightarrow> outcome"

text \<open>\<open>options[name]\<close> of the store definition: absent, \<open>null\<close>, or a function.\<close>

datatype local_option = Absent | Null | Fn handler

text \<open>The schema validator: \<open>validateSyncAt\<close> returns (\<open>None\<close>) or throws with a message.\<close>

record schema =
  validateSyncAt :: "string \<Rightarrow> jsval \<Rightarrow> string option"
  getDefaultFromShape :: jsval

text \<open>
  What a write request to the remote store does: it is acknowledged, it is refused (the
  returned promise rejects), or the arguments are rejected before anything is sent (the
  call throws).
\<close>

datatype remote_result = Acknowledged | Refused string | Invalid string

text \<open>What the initializer of the store definition does when called.\<close>

datatype init_result = InitReturns | InitPromise | InitThrows string

text \<open>
  The store definition and its surroundings: the options given to \<open>defineFirebaseStore\<close>,
  the options installed by the plugin (\<open>_globalOptions\<close>, and whether \<open>_db\<close> is there), and
  the behaviour of the remote store.
\<close>

record config =
  cfg_id :: string
  collectionName :: string
  docSchema :: "schema option"
  userState :: fields
  local_options :: "handler_name \<Rightarrow> local_option"
  global_options :: "handler_name \<Rightarrow> handler option"
  initialize :: "(store_state \<Rightarrow> init_result) option"
  db_installed :: bool
  updateDoc_result :: "ref \<Rightarrow> fields \<Rightarrow> remote_result"
  deleteDoc_result :: "ref \<Rightarrow> remote_result"

text \<open>
  A store instance in its surroundings: its state, the world, the calls made to the
  caller's callbacks (name and arguments), the calls made to the initializer, the
  initializer promises still pending, and the initializer runs that have completed.
\<close>

record store_sys =
  state :: store_state
  env :: world
  handler_calls :: "(handler_name \<times> jsval list) list"
  initializer_calls :: nat
  pending_init :: nat
  init_completed :: nat

text \<open>The outcome of an \<open>async\<close> function: the value its promise fulfils with, or the error it rejects with.\<close>

datatype 'a promise = Fulfilled 'a | Rejected string

definition initial_state :: "config \<Rightarrow> store_state" where
  "initial_state cfg =
     \<lparr>u_collectionPath = collectionName cfg,
      u_initializedState = UNINITIALIZED,
      isInitialized = False,
      isFetching = False,
      collection = empty_coll,
      query = JObj fmempty,
      doc = (case docSchema cfg of
               None \<Rightarrow> JObj fmempty
             | Some sch \<Rightarrow> if truthy (getDefaultFromShape sch) then getDefaultFromShape sch else JObj fmempty),
      user_state = userState cfg\<rparr>"

definition error_log :: "string list \<Rightarrow> store_sys \<Rightarrow> store_sys" where
  "error_log args s = s\<lparr>env := logger Error args (env s)\<rparr>"


subsection \<open>Callbacks\<close>

text \<open>\<open>options[name] || this._globalOptions[name]\<close>, after the test for \<open>null\<close>.\<close>

definition resolve_handler :: "config \<Rightarrow> handler_name \<Rightarrow> handler option" where
  "resolve_handler cfg name =
     (case local_options cfg name of
        Null \<Rightarrow> None
      | Fn h \<Rightarrow> Some h
      | Absent \<Rightarrow> global_options cfg name)"

definition u_runHandler :: "config \<Rightarrow> handler_name \<Rightarrow> jsval list \<Rightarrow> store_sys \<Rightarrow> outcome \<times> store_sys" where
  "u_runHandler cfg name args s =
     (if local_options cfg name = Null then (Returns JUndefined, s)
      else (case resolve_handler cfg name of
              None \<Rightarrow> (Returns JUndefined, s)
            | Some h \<Rightarrow> (h args, s\<lparr>handler_calls := handler_calls s @ [(name, args)]\<rparr>)))"

text \<open>The callback configured under a name, if any, returns on these arguments; it throws \<open>e\<close>.\<close>

definition handler_returns :: "config \<Rightarrow> handler_name \<Rightarrow> jsval list \<Rightarrow> bool" where
  "handler_returns cfg name args =
     (case resolve_handler cfg name of
        None \<Rightarrow> True
      | Some h \<Rightarrow> (case h args of Returns r \<Rightarrow> True | Throws e \<Rightarrow> False))"

definition handler_throws :: "config \<Rightarrow> handler_name \<Rightarrow> jsval list \<Rightarrow> string \<Rightarrow> bool" where
  "handler_throws cfg name args e =
     (case resolve_handler cfg name of
        None \<Rightarrow> False
      | Some h \<Rightarrow> h args = Throws e)"

text \<open>The call a configured callback receives, as recorded in \<open>handler_calls\<close>.\<close>

definition handler_call :: "config \<Rightarrow> handler_name \<Rightarrow> jsval list \<Rightarrow> (handler_name \<times> jsval list) list" where
  "handler_call cfg name args =
     (case resolve_handler cfg name of None \<Rightarrow> [] | Some h \<Rightarrow> [(name, args)])"

definition u_onValidationSuccess :: "config \<Rightarrow> string \<Rightarrow> store_sys \<Rightarrow> outcome \<times> store_sys" where
  "u_onValidationSuccess cfg path s =
     u_runHandler cfg OnValidationSuccess [JStr (cfg_id cfg), JStr path] s"

definition u_onValidationError :: "config \<Rightarrow> string \<Rightarrow> string \<Rightarrow> store_sys \<Rightarrow> outcome \<times> store_sys" where
  "u_onValidationError cfg path message s =
     u_runHandler cfg OnValidationError [JStr (cfg_id cfg), JStr path, JStr message] s"

definition u_appendToUpdated :: "config \<Rightarrow> store_sys \<Rightarrow> outcome \<times> store_sys" where
  "u_appendToUpdated cfg s = u_runHandler cfg AppendToUpdated [] s"

subsection \<open>References and remote writes\<close>

text \<open>
  \<open>doc(this._db, this._collectionPath, id)\<close>: the remote store's \<open>doc\<close> takes path segments
  that are strings and throws on anything else.
\<close>

definition u_getRef :: "jsval \<Rightarrow> store_sys \<Rightarrow> ref promise" where
  "u_getRef ident s =
     (case ident of
        JStr i \<Rightarrow> Fulfilled \<lparr>ref_id = i, ref_type = Document,
                               ref_path = u_collectionPath (state s) @ ''/'' @ i\<rparr>
      | _ \<Rightarrow> Rejected ''FirebaseError'')"

text \<open>\<open>$getRef(...args)\<close>; the argument is \<open>JUndefined\<close> when the caller gives none.\<close>

definition d_getRef :: "jsval \<Rightarrow> store_sys \<Rightarrow> ref option promise \<times> store_sys" where
  "d_getRef arg s =
     (let ident = (if truthy arg then arg else js_get (doc (state s)) ''__id'') in
      if \<not> truthy ident then (Fulfilled None, error_log [''Can't get ref without an id''] s)
      else (case u_getRef ident s of
              Rejected e \<Rightarrow> (Rejected e, s)
            | Fulfilled r \<Rightarrow> (Fulfilled (Some r), s)))"

definition u_updateDoc :: "config \<Rightarrow> jsval \<Rightarrow> jsval \<Rightarrow> store_sys \<Rightarrow> jsval promise \<times> store_sys" where
  "u_updateDoc cfg ident data s =
     (case d_getRef ident s of
        (Rejected e, s1) \<Rightarrow> (Rejected e, s1)
      | (Fulfilled None, s1) \<Rightarrow> (Fulfilled JUndefined, error_log [''Cannot sync. Error getting ref''] s1)
      | (Fulfilled (Some r), s1) \<Rightarrow>
          (case u_appendToUpdated cfg s1 of
             (Throws e, s2) \<Rightarrow> (Rejected e, s2)
           | (Returns appendData, s2) \<Rightarrow>
               (let patch = spread data ++\<^sub>f spread appendData in
                case updateDoc_result cfg r patch of
                  Invalid e \<Rightarrow> (Rejected e, s2)
                | Refused e \<Rightarrow>
                    (Fulfilled (JBool True),
                     error_log [e] (s2\<lparr>env := (env s2)\<lparr>remote := remote (env s2) @ [UpdateDoc r patch]\<rparr>\<rparr>))
                | Acknowledged \<Rightarrow>
                    (Fulfilled (JBool True),
                     s2\<lparr>env := (env s2)\<lparr>remote := remote (env s2) @ [UpdateDoc r patch]\<rparr>\<rparr>))))"

text \<open>
  The argument of \<open>$sync\<close>: one path string, a list of path strings, or nothing (then
  \<open>keys.reduce\<close> throws a TypeError).
\<close>

datatype sync_keys = OneKey string | Keys "string list" | NoKeys

text \<open>\<open>keysToSync.reduce((all, key) => ({ ...all, [key]: get(docData, key) }), {})\<close>\<close>

definition named_patch :: "jsval \<Rightarrow> string list \<Rightarrow> fields" where
  "named_patch docData keysToSync =
     foldl (\<lambda>all key. fmupd key (lodash_get docData key) all) fmempty keysToSync"

definition u_sync :: "config \<Rightarrow> jsval \<Rightarrow> sync_keys \<Rightarrow> store_sys \<Rightarrow> jsval promise \<times> store_sys" where
  "u_sync cfg docData keys s =
     (case (case keys of OneKey k \<Rightarrow> Some [k] | Keys ks \<Rightarrow> Some ks | NoKeys \<Rightarrow> None) of
        None \<Rightarrow> (Rejected ''TypeError'', s)
      | Some keysToSync \<Rightarrow>
          (let patch = named_patch docData keysToSync;
               dataToSync = (if patch \<noteq> fmempty then JObj patch else docData)
           in u_updateDoc cfg (js_get docData ''__id'') dataToSync s))"

definition d_sync :: "config \<Rightarrow> sync_keys \<Rightarrow> store_sys \<Rightarrow> jsval promise \<times> store_sys" where
  "d_sync cfg keys s = u_sync cfg (doc (state s)) keys s"

subsection \<open>Updating a field\<close>

text \<open>
  The \<open>object\<close> argument of \<open>_update\<close> is a reference: \<open>this.doc\<close> when called from
  \<open>$update\<close>, an element of the collection when called from \<open>$updateDoc\<close>.
\<close>

datatype target = ThisDoc | Item nat

definition deref :: "target \<Rightarrow> store_state \<Rightarrow> jsval" where
  "deref t st =
     (case t of
        ThisDoc \<Rightarrow> doc st
      | Item a \<Rightarrow> (if a < length (heap (collection st)) then JObj (heap (collection st) ! a)
                   else JUndefined))"

definition write_back :: "target \<Rightarrow> jsval \<Rightarrow> store_state \<Rightarrow> store_state" where
  "write_back t v st =
     (case t of
        ThisDoc \<Rightarrow> st\<lparr>doc := v\<rparr>
      | Item a \<Rightarrow> st\<lparr>collection := (collection st)\<lparr>heap := (heap (collection st))[a := spread v]\<rparr>\<rparr>)"

definition d_get :: "string \<Rightarrow> store_sys \<Rightarrow> jsval" where
  "d_get path s = lodash_get (doc (state s)) path"

text \<open>\<open>docSchema?.validateSyncAt(path, cloned)\<close>: the message of the validation error, if it throws.\<close>

definition validation :: "config \<Rightarrow> string \<Rightarrow> jsval \<Rightarrow> string option" where
  "validation cfg path cloned =
     (case docSchema cfg of None \<Rightarrow> None | Some sch \<Rightarrow> validateSyncAt sch path cloned)"

text \<open>The \<open>try\<close> block of \<open>_update\<close>: \<open>Inl\<close> carries the message of the error it throws.\<close>

definition u_update_try ::
  "config \<Rightarrow> target \<Rightarrow> string \<Rightarrow> jsval \<Rightarrow> bool \<Rightarrow> store_sys \<Rightarrow> (string + unit) \<times> store_sys" where
  "u_update_try cfg object path v shouldSync s =
     (let cloned = lodash_set (cloneDeep (deref object (state s))) path v in
      case validation cfg path cloned of
        Some e \<Rightarrow> (Inl e, s)
      | None \<Rightarrow>
          (let s1 = s\<lparr>state := write_back object (lodash_set (deref object (state s)) path v) (state s)\<rparr> in
           case u_onValidationSuccess cfg path s1 of
             (Throws e, s2) \<Rightarrow> (Inl e, s2)
           | (Returns r, s2) \<Rightarrow>
               (if shouldSync
                then (case d_sync cfg (OneKey path) s2 of
                        (Rejected e, s3) \<Rightarrow> (Inl e, s3)
                      | (Fulfilled r', s3) \<Rightarrow> (Inr (), s3))
                else (Inr (), s2))))"

text \<open>The \<open>catch\<close> block: an error thrown by the callback leaves the function.\<close>

definition u_update_catch :: "config \<Rightarrow> string \<Rightarrow> string \<Rightarrow> store_sys \<Rightarrow> bool promise \<times> store_sys" where
  "u_update_catch cfg path e s =
     (case u_onValidationError cfg path e (error_log [e] s) of
        (Throws e', s1) \<Rightarrow> (Rejected e', s1)
      | (Returns r, s1) \<Rightarrow> (Fulfilled False, s1))"

definition u_update ::
  "config \<Rightarrow> target \<Rightarrow> string \<Rightarrow> jsval \<Rightarrow> bool \<Rightarrow> store_sys \<Rightarrow> bool promise \<times> store_sys" where
  "u_update cfg object path v shouldSync s =
     (if \<not> lodash_has (deref object (state s)) path
      then (Rejected (''Cannot update track store: invalid document path: '' @ path), s)
      else
        (let existingValue = d_get path s;
             valueHasChanged = \<not> isEqual existingValue v
         in if \<not> valueHasChanged then (Fulfilled False, s)
            else (case u_update_try cfg object path v shouldSync s of
                    (Inr u, s1) \<Rightarrow> (Fulfilled True, s1)
                  | (Inl e, s1) \<Rightarrow> u_update_catch cfg path e s1)))"

definition d_update :: "config \<Rightarrow> string \<Rightarrow> jsval \<Rightarrow> bool \<Rightarrow> store_sys \<Rightarrow> bool promise \<times> store_sys" where
  "d_update cfg path v shouldSync s = u_update cfg ThisDoc path v shouldSync s"

subsection \<open>Array helpers\<close>


subsection \<open>Resetting and deleting\<close>

text \<open>
  \<open>$reset\<close> is the reset of the state container for stores defined with a \<open>state\<close>
  function: the state is replaced by a fresh result of \<open>state()\<close>.  Everything that is not
  state (the registry, pending promises, the callbacks' history) stays.
\<close>

definition d_reset :: "config \<Rightarrow> store_sys \<Rightarrow> store_sys" where
  "d_reset cfg s = s\<lparr>state := initial_state cfg\<rparr>"

text \<open>
  \<open>_unbind\<close> resets the state before it calls \<open>unbind\<close>; with no reference, \<open>unbind\<close> throws
  on reading \<open>ref.id\<close>.
\<close>

definition u_unbind :: "config \<Rightarrow> store_sys \<Rightarrow> unit promise \<times> store_sys" where
  "u_unbind cfg s =
     (case d_getRef JUndefined s of
        (Rejected e, s1) \<Rightarrow> (Rejected e, s1)
      | (Fulfilled r, s1) \<Rightarrow>
          (let s2 = d_reset cfg s1 in
           case r of
             None \<Rightarrow> (Rejected ''TypeError'', s2)
           | Some docRef \<Rightarrow>
               (case unbind (cfg_id cfg) docRef (env s2) of
                  Inl (e, w) \<Rightarrow> (Rejected e, s2\<lparr>env := w\<rparr>)
                | Inr w \<Rightarrow> (Fulfilled (), s2\<lparr>env := w\<rparr>))))"

text \<open>
  \<open>$delete\<close>: unbind, delete the remote document, reset the state, return true.  A failure
  of \<open>unbind\<close> or of the remote deletion leaves the function before the reset.
\<close>

definition d_delete :: "config \<Rightarrow> store_sys \<Rightarrow> bool promise \<times> store_sys" where
  "d_delete cfg s =
     (case d_getRef JUndefined s of
        (Rejected e, s1) \<Rightarrow> (Rejected e, s1)
      | (Fulfilled None, s1) \<Rightarrow> (Rejected ''TypeError'', s1)
      | (Fulfilled (Some docRef), s1) \<Rightarrow>
          (case unbind (cfg_id cfg) docRef (env s1) of
             Inl (e, w) \<Rightarrow> (Rejected e, s1\<lparr>env := w\<rparr>)
           | Inr w \<Rightarrow>
               (case deleteDoc_result cfg docRef of
                  Invalid e \<Rightarrow> (Rejected e, s1\<lparr>env := w\<rparr>)
                | Refused e \<Rightarrow> (Rejected e, s1\<lparr>env := w\<lparr>remote := remote w @ [DeleteDoc docRef]\<rparr>\<rparr>)
                | Acknowledged \<Rightarrow>
                    (Fulfilled True,
                     d_reset cfg (s1\<lparr>env := w\<lparr>remote := remote w @ [DeleteDoc docRef]\<rparr>\<rparr>)))))"

subsection \<open>Initialization\<close>

definition onInitialized :: "store_sys \<Rightarrow> store_sys" where
  "onInitialized s =
     s\<lparr>state := (state s)\<lparr>u_initializedState := INITIALIZED, isInitialized := True\<rparr>\<rparr>"

text \<open>
  What a call of the function returned by \<open>defineFirebaseStore\<close> gives back: the proxy,
  nothing (after logging that there is no database), or an exception thrown by the
  initializer.
\<close>

datatype use_result = Proxy | NoStore | Thrown string

text \<open>
  The store accessor.  \<open>s\<close> is the instance the state container holds for the id (a fresh
  one, \<open>fresh_store\<close>, before the first call).  When the initializer returns a promise,
  \<open>onInitialized\<close> is left as its continuation (\<open>pending_init\<close>).
\<close>

definition use_store :: "config \<Rightarrow> store_sys \<Rightarrow> use_result \<times> store_sys" where
  "use_store cfg s =
     (if \<not> db_installed cfg
      then (NoStore, error_log [''Firestore not found. Did you initialize the plugin by calling pinia.use({ db: yourFirestoreInstance })?''] s)
      else if \<not> isInitialized (state s) \<and> u_initializedState (state s) \<noteq> INITITALIZING
      then
        (let s1 = s\<lparr>state := (state s)\<lparr>u_initializedState := INITITALIZING\<rparr>\<rparr> in
         case initialize cfg of
           None \<Rightarrow> (Proxy, onInitialized s1)
         | Some f \<Rightarrow>
             (let s2 = s1\<lparr>initializer_calls := Suc (initializer_calls s1)\<rparr> in
              case f (state s2) of
                InitThrows e \<Rightarrow> (Thrown e, s2)
              | InitPromise \<Rightarrow> (Proxy, s2\<lparr>pending_init := Suc (pending_init s2)\<rparr>)
              | InitReturns \<Rightarrow> (Proxy, onInitialized (s2\<lparr>init_completed := Suc (init_completed s2)\<rparr>))))
      else (Proxy, s))"

definition fresh_store :: "config \<Rightarrow> world \<Rightarrow> store_sys" where
  "fresh_store cfg w =
     \<lparr>state = initial_state cfg, env = w, handler_calls = [],
      initializer_calls = 0, pending_init = 0, init_completed = 0\<rparr>"

text \<open>
  What can happen to the lifecycle of an instance without a reset: a call of the
  accessor, and the settling of a pending initializer promise.
\<close>

datatype lifecycle_event = UseStore | InitFulfilled | InitRejected

definition lifecycle_step :: "config \<Rightarrow> lifecycle_event \<Rightarrow> store_sys \<Rightarrow> store_sys" where
  "lifecycle_step cfg ev s =
     (case ev of
        UseStore \<Rightarrow> snd (use_store cfg s)
      | InitFulfilled \<Rightarrow>
          (if 0 < pending_init s
           then onInitialized (s\<lparr>pending_init := pending_init s - 1, init_completed := Suc (init_completed s)\<rparr>)
           else s)
      | InitRejected \<Rightarrow>
          (if 0 < pending_init s then s\<lparr>pending_init := pending_init s - 1\<rparr> else s))"

fun lifecycle_run :: "config \<Rightarrow> store_sys \<Rightarrow> lifecycle_event list \<Rightarrow> store_sys" where
  "lifecycle_run cfg s [] = s"
| "lifecycle_run cfg s (ev # evs) = lifecycle_run cfg (lifecycle_step cfg ev s) evs"

fun rank :: "lifecycle \<Rightarrow> nat" where
  "rank UNINITIALIZED = 0"
| "rank INITITALIZING = 1"
| "rank INITIALIZED = 2"

subsection \<open>The proxy\<close>

text \<open>
  The store instance as the proxy handlers use it: \<open>store.doc\<close>, and the other properties
  of the instance by name.
\<close>

record store_view =
  i_doc :: jsval
  i_props :: fields

text \<open>\<open>Reflect.get(target, prop)\<close> and \<open>store[prop] = value\<close>.\<close>

definition reflect_get :: "store_view \<Rightarrow> string \<Rightarrow> jsval" where
  "reflect_get i p =
     (if p = ''doc'' then i_doc i
      else (case fmlookup (i_props i) p of Some v \<Rightarrow> v | None \<Rightarrow> JUndefined))"

definition store_set :: "store_view \<Rightarrow> string \<Rightarrow> jsval \<Rightarrow> store_view" where
  "store_set i p v = (if p = ''doc'' then i\<lparr>i_doc := v\<rparr> else i\<lparr>i_props := fmupd p v (i_props i)\<rparr>)"

text \<open>The handlers of the store of store.js (\<open>if (store.doc[prop])\<close>, \<open>typeof store.doc[prop] !== 'undefined'\<close>).\<close>

definition proxy_get :: "store_view \<Rightarrow> string \<Rightarrow> jsval" where
  "proxy_get i p =
     (if truthy (js_get (i_doc i) p) then js_get (i_doc i) p else reflect_get i p)"

definition proxy_set :: "store_view \<Rightarrow> string \<Rightarrow> jsval \<Rightarrow> store_view" where
  "proxy_set i p v =
     (if js_get (i_doc i) p \<noteq> JUndefined then i\<lparr>i_doc := assign (i_doc i) p v\<rparr>
      else store_set i p v)"

text \<open>The handlers of the first store variant (\<open>has(store.doc, prop)\<close>).\<close>

definition proxy_get_has :: "store_view \<Rightarrow> string \<Rightarrow> jsval" where
  "proxy_get_has i p =
     (if lodash_has (i_doc i) p then js_get (i_doc i) p else reflect_get i p)"

definition proxy_set_has :: "store_view \<Rightarrow> string \<Rightarrow> jsval \<Rightarrow> store_view" where
  "proxy_set_has i p v =
     (if lodash_has (i_doc i) p then i\<lparr>i_doc := assign (i_doc i) p v\<rparr>
      else store_set i p v)"

text \<open>The document state declares a property when it has it as its own.\<close>

definition declares :: "jsval \<Rightarrow> string \<Rightarrow> bool" where
  "declares d p = (own_prop d p \<noteq> None)"

text \<open>
  What holds of every instance that started fresh and has not been reset: the flag
  \<open>isInitialized\<close> goes with the state \<open>INITIALIZED\<close>; the initializer has been called at
  most once, and not at all while the state is \<open>UNINITIALIZED\<close>; at most one promise is
  pending, and only in the state \<open>INITITALIZING\<close>; and the state \<open>INITIALIZED\<close> has been reached only through
  a completed initializer run, when there is an initializer.
\<close>

definition lifecycle_inv :: "config \<Rightarrow> store_sys \<Rightarrow> bool" where
  "lifecycle_inv cfg s =
     ((isInitialized (state s) \<longleftrightarrow> u_initializedState (state s) = INITIALIZED)
      \<and> initializer_calls s \<le> 1
      \<and> (u_initializedState (state s) = UNINITIALIZED \<longrightarrow> initializer_calls s = 0)
      \<and> pending_init s \<le> 1
      \<and> (0 < pending_init s \<longrightarrow> u_initializedState (state s) = INITITALIZING)
      \<and> (u_initializedState (state s) = INITIALIZED \<longrightarrow> initialize cfg = None \<or> 0 < init_completed s))"


section \<open>Example data\<close>

definition ex_snap :: "string \<Rightarrow> int \<Rightarrow> snapshot" where
  "ex_snap k n =
     \<lparr>snap_exists = True, snap_id = k, snap_path = ''things/'' @ k, snap_metadata = JNull,
      snap_data = Some (fmap_of_list [(''n'', JNum n)])\<rparr>"



definition ex_world :: world where
  "ex_world = \<lparr>unsubs = fmempty, listeners = 0, unsubscribed = [], log = [], remote = []\<rparr>"

definition ex_inst :: pinia_instance where
  "ex_inst =
     \<lparr>inst_id = ''things'',
      inst_state = fmap_of_list [(''doc'', fmap_of_list [(''n'', JNum 0), (''title'', JStr [])])],
      inst_collection = empty_coll, inst_assigned = []\<rparr>"

definition ex_doc_ref :: ref where
  "ex_doc_ref = \<lparr>ref_id = ''a'', ref_type = Document, ref_path = ''things/a''\<rparr>"

definition no_hooks :: options where
  "no_hooks = \<lparr>beforeUpdate = None, afterUpdate = None\<rparr>"



text \<open>
  A store definition in the style of the repository's tests: a schema with a number
  between 10 and 100, an array of at most five items, a title, a nested object and an
  array of tags.
\<close>

definition ex_default :: jsval where
  "ex_default =
     JObj (fmap_of_list
       [(''title'', JStr []),
        (''testValue'', JNum 50),
        (''parent'', JObj (fmap_of_list [(''child'', JNum 1)])),
        (''numbers'', JArr [JNum 1, JNum 2, JNum 3, JNum 4, JNum 5]),
        (''tags'', JArr [JStr ''a'', JStr ''a''])])"

definition ex_validate :: "string \<Rightarrow> jsval \<Rightarrow> string option" where
  "ex_validate p d =
     (if p = ''testValue'' then
        (case lodash_get d p of
           JNum n \<Rightarrow> (if n < 10 then Some ''testValue must be greater than or equal to 10''
                      else if 100 < n then Some ''testValue must be less than or equal to 100''
                      else None)
         | _ \<Rightarrow> Some ''testValue must be a number'')
      else if p = ''numbers'' then
        (case lodash_get d p of
           JArr xs \<Rightarrow> (if 5 < length xs then Some ''numbers field must have less than or equal to 5 items''
                       else None)
         | _ \<Rightarrow> Some ''numbers must be an array'')
      else None)"

definition ex_schema :: schema where
  "ex_schema = \<lparr>validateSyncAt = ex_validate, getDefaultFromShape = ex_default\<rparr>"

definition quiet :: handler where
  "quiet args = Returns JUndefined"

definition failing :: handler where
  "failing args = Throws ''handler failed''"

definition stamp :: handler where
  "stamp args = Returns (JObj (fmap_of_list [(''updatedBy'', JStr ''user2'')]))"

fun ex_global :: "handler_name \<Rightarrow> handler option" where
  "ex_global OnValidationSuccess = Some quiet"
| "ex_global OnValidationError = Some quiet"
| "ex_global AppendToCreated = None"
| "ex_global AppendToUpdated = Some stamp"

fun no_local :: "handler_name \<Rightarrow> local_option" where
  "no_local name = Absent"

fun always_acknowledged :: "ref \<Rightarrow> fields \<Rightarrow> remote_result" where
  "always_acknowledged r patch = Acknowledged"

fun delete_acknowledged :: "ref \<Rightarrow> remote_result" where
  "delete_acknowledged r = Acknowledged"

fun init_returns :: "store_state \<Rightarrow> init_result" where
  "init_returns st = InitReturns"

definition ex_cfg :: config where
  "ex_cfg =
     \<lparr>cfg_id = ''test'', collectionName = ''testCollection'', docSchema = Some ex_schema,
      userState = fmap_of_list [(''extraValue'', JNum 200)],
      local_options = no_local, global_options = ex_global,
      initialize = Some init_returns, db_installed = True,
      updateDoc_result = always_acknowledged, deleteDoc_result = delete_acknowledged\<rparr>"


fun both_handlers_throw :: "handler_name \<Rightarrow> handler option" where
  "both_handlers_throw OnValidationError = Some failing"
| "both_handlers_throw OnValidationSuccess = Some failing"
| "both_handlers_throw name = ex_global name"

fun success_handler_throws :: "handler_name \<Rightarrow> handler option" where
  "success_handler_throws OnValidationSuccess = Some failing"
| "success_handler_throws name = ex_global name"

definition ex_store :: store_sys where
  "ex_store = fresh_store ex_cfg ex_world"


definition ex_cfg_success_handler_throws :: config where
  "ex_cfg_success_handler_throws = ex_cfg\<lparr>global_options := success_handler_throws\<rparr>"

definition ex_cfg_both_handlers_throw :: config where
  "ex_cfg_both_handlers_throw = ex_cfg\<lparr>global_options := both_handlers_throw\<rparr>"

text \<open>The example store after a document with id \<open>a\<close> has been fetched.\<close>

definition ex_doc_a :: jsval where
  "ex_doc_a =
     JObj (fmap_of_list
       [(''__id'', JStr ''a''),
        (''__path'', JStr ''testCollection/a''),
        (''__metadata'', JNull),
        (''title'', JStr ''New Title''),
        (''testValue'', JNum 20)])"

definition ex_store_a :: store_sys where
  "ex_store_a = ex_store\<lparr>state := (state ex_store)\<lparr>doc := ex_doc_a\<rparr>\<rparr>"

text \<open>The same store with its document bound: the registry holds the listener of \<open>a\<close>.\<close>

definition ex_store_bound :: store_sys where
  "ex_store_bound =
     ex_store_a\<lparr>env := store ''test'' ''a'' 0 Document (ex_world\<lparr>listeners := 1\<rparr>)\<rparr>"

fun init_promise :: "store_state \<Rightarrow> init_result" where
  "init_promise st = InitPromise"

definition ex_cfg_deferred :: config where
  "ex_cfg_deferred = ex_cfg\<lparr>initialize := Some init_promise\<rparr>"

text \<open>
  The example store as the proxy sees it, with the schema's default document (its title is
  the empty string), and a document with a declared but undefined field.
\<close>

definition ex_view :: store_view where
  "ex_view = \<lparr>i_doc = ex_default, i_props = fmap_of_list [(''extraValue'', JNum 200)]\<rparr>"

definition ex_view_undefined :: store_view where
  "ex_view_undefined =
     \<lparr>i_doc = JObj (fmap_of_list [(''note'', JUndefined)]), i_props = fmempty\<rparr>"



fun append_handler_throws :: "handler_name \<Rightarrow> handler option" where
  "append_handler_throws AppendToUpdated = Some failing"
| "append_handler_throws name = ex_global name"

definition ex_cfg_append_throws :: config where
  "ex_cfg_append_throws = ex_cfg\<lparr>global_options := append_handler_throws\<rparr>"

section \<open>Collection reconciliation: the add, add, remove scenario\<close>






section \<open>The bind promise\<close>

lemma remove_unsubscribed [simp]: "unsubscribed (remove i n w) = unsubscribed w"
  by (simp add: remove_def logger_def Let_def split: option.splits)

lemma remove_lookup [simp]: "fmlookup (unsubs (remove i n w)) (getStoreKey i n) = None"
  by (simp add: remove_def logger_def Let_def split: option.splits)

lemma remove_keeps_log: "x \<in> set (log w) \<Longrightarrow> x \<in> set (log (remove i n w))"
  by (simp add: remove_def logger_def Let_def split: option.splits)

lemma deliver_args:
  "c_field (clo (deliver e s)) = c_field (clo s)
   \<and> c_ref (clo (deliver e s)) = c_ref (clo s)
   \<and> c_options (clo (deliver e s)) = c_options (clo s)
   \<and> inst_id (inst (deliver e s)) = inst_id (inst s)"
  by (auto simp: deliver_def updateHandler_def handleDocSnapshotUpdate_def
      handleCollectionSnapshotUpdate_def handleError_def u_resolve_def throw_def Let_def
      split: event.splits payload.splits option.splits)

lemma deliver_settled:
  "isInitialised (clo s) \<Longrightarrow>
     isInitialised (clo (deliver e s)) \<and> settled (clo (deliver e s)) = settled (clo s)"
  by (auto simp: deliver_def updateHandler_def handleDocSnapshotUpdate_def
      handleCollectionSnapshotUpdate_def handleError_def u_resolve_def throw_def Let_def
      split: event.splits payload.splits option.splits)

lemma deliver_unsubscribed: "unsubscribed (world (deliver e s)) = unsubscribed (world s)"
  by (auto simp: deliver_def updateHandler_def handleDocSnapshotUpdate_def
      handleCollectionSnapshotUpdate_def handleError_def u_resolve_def throw_def Let_def logger_def
      split: event.splits payload.splits option.splits)

lemma run_settled:
  "isInitialised (clo s) \<Longrightarrow>
     isInitialised (clo (run s evs)) \<and> settled (clo (run s evs)) = settled (clo s)"
  by (induction evs arbitrary: s) (simp_all add: deliver_settled)

lemma run_args:
  "c_field (clo (run s evs)) = c_field (clo s)
   \<and> c_ref (clo (run s evs)) = c_ref (clo s)
   \<and> c_options (clo (run s evs)) = c_options (clo s)
   \<and> inst_id (inst (run s evs)) = inst_id (inst s)"
  by (induction evs arbitrary: s) (simp_all add: deliver_args)

lemma run_unsubscribed: "unsubscribed (world (run s evs)) = unsubscribed (world s)"
  by (induction evs arbitrary: s) (simp_all add: deliver_unsubscribed)

lemma first_snapshot:
  assumes "\<not> isInitialised (clo s)" and "returns_normally p s"
  shows "isInitialised (clo (deliver (Next p) s))
       \<and> settled (clo (deliver (Next p) s)) = settled (clo s) @
           [Resolve (case p of
                       DocSnapshot sn \<Rightarrow> if snap_exists sn then RDoc (makeDocumentData sn) else RFalse
                     | QuerySnapshot chs \<Rightarrow> RDocs (apply_changes (inst_collection (inst s)) chs))]"
  using assms
  by (auto simp: returns_normally_def deliver_def updateHandler_def handleDocSnapshotUpdate_def
      handleCollectionSnapshotUpdate_def u_resolve_def throw_def Let_def
      split: payload.splits option.splits if_splits)

lemma bind_fresh:
  "\<not> isInitialised (clo (bind i field r opts w)) \<and> settled (clo (bind i field r opts w)) = []
   \<and> inst (bind i field r opts w) = i \<and> c_field (clo (bind i field r opts w)) = field
   \<and> c_ref (clo (bind i field r opts w)) = r
   \<and> unsubscribed (world (bind i field r opts w)) = unsubscribed w"
  by (simp add: bind_def store_def Let_def)

lemma after_first_snapshot:
  assumes "returns_normally p (bind i field r opts w)"
  shows "isInitialised (clo (run (bind i field r opts w) (Next p # evs)))
       \<and> settled (clo (run (bind i field r opts w) (Next p # evs))) =
           [Resolve (case p of
                       DocSnapshot sn \<Rightarrow> if snap_exists sn then RDoc (makeDocumentData sn) else RFalse
                     | QuerySnapshot chs \<Rightarrow> RDocs (apply_changes (inst_collection i) chs))]"
proof -
  let ?s0 = "bind i field r opts w"
  have fresh: "\<not> isInitialised (clo ?s0)" and s0: "settled (clo ?s0) = []" "inst ?s0 = i"
    by (simp_all add: bind_fresh)
  from first_snapshot[OF fresh assms]
  have 1: "isInitialised (clo (deliver (Next p) ?s0))"
    and 2: "settled (clo (deliver (Next p) ?s0)) =
           [Resolve (case p of
                       DocSnapshot sn \<Rightarrow> if snap_exists sn then RDoc (makeDocumentData sn) else RFalse
                     | QuerySnapshot chs \<Rightarrow> RDocs (apply_changes (inst_collection i) chs))]"
    by (simp_all add: s0 cong: payload.case_cong)
  from run_settled[OF 1, of evs] 2 show ?thesis by simp
qed






section \<open>A listener error after the first snapshot\<close>

lemma handleError_effects:
  "inst (deliver (Fail e) s) = inst s
   \<and> (Error, [inst_id (inst s) @ '' error'', e]) \<in> set (log (world (deliver (Fail e) s)))
   \<and> fmlookup (unsubs (world (deliver (Fail e) s))) (getStoreKey (inst_id (inst s)) (ref_id (c_ref (clo s)))) = None"
  by (auto simp: deliver_def handleError_def Let_def logger_def intro!: remove_keeps_log)

text \<open>
  C7 (as the code has it).  Take a call of \<open>bind\<close> whose first snapshot was handled to the
  end, so that the promise is resolved, followed by any events.  When the listener then
  reports an error, the promise is not rejected (its only settlement stays the first
  resolution), the error is logged, the registry entry of the subscription is removed, and
  the bound state of the store is exactly what it was.  The error handler does not invoke
  the unsubscribe function: no unsubscribe function has been invoked that had not been
  before \<open>bind\<close>.
\<close>

theorem error_after_first_snapshot:
  fixes i :: pinia_instance and field :: string and r :: ref and opts :: options and w :: world
    and p :: payload and evs :: "event list" and e :: string
  assumes "returns_normally p (bind i field r opts w)"
  defines "s1 \<equiv> run (bind i field r opts w) (Next p # evs)"
  defines "s2 \<equiv> deliver (Fail e) s1"
  shows "settled (clo s2) = settled (clo s1) \<and> Reject e \<notin> set (settled (clo s2))
       \<and> (Error, [inst_id i @ '' error'', e]) \<in> set (log (world s2))
       \<and> fmlookup (unsubs (world s2)) (getStoreKey (inst_id i) (ref_id r)) = None
       \<and> unsubscribed (world s2) = unsubscribed w
       \<and> inst s2 = inst s1"
proof -
  have init: "isInitialised (clo s1)"
    and st: "settled (clo s1) =
           [Resolve (case p of
                       DocSnapshot sn \<Rightarrow> if snap_exists sn then RDoc (makeDocumentData sn) else RFalse
                     | QuerySnapshot chs \<Rightarrow> RDocs (apply_changes (inst_collection i) chs))]"
    unfolding s1_def using after_first_snapshot[OF assms(1)] by simp_all
  have args: "inst_id (inst s1) = inst_id i" "c_ref (clo s1) = r"
    unfolding s1_def by (simp_all only: run_args bind_fresh)
  have same: "settled (clo s2) = settled (clo s1)"
    unfolding s2_def using deliver_settled[OF init] by simp
  have "unsubscribed (world s2) = unsubscribed w"
    unfolding s2_def s1_def by (simp only: deliver_unsubscribed run_unsubscribed bind_fresh)
  moreover have "Reject e \<notin> set (settled (clo s2))"
    by (simp add: same st)
  ultimately show ?thesis
    using same handleError_effects[of e s1] args by (simp add: s2_def)
qed

theorem error_after_first_snapshot_witness:
  "returns_normally (DocSnapshot (ex_snap ''a'' 1)) (bind ex_inst ''doc'' ex_doc_ref no_hooks ex_world)
   \<and> settled (clo (run (bind ex_inst ''doc'' ex_doc_ref no_hooks ex_world)
         [Next (DocSnapshot (ex_snap ''a'' 1)), Fail ''offline'']))
       = [Resolve (RDoc (makeDocumentData (ex_snap ''a'' 1)))]
   \<and> fmlookup (unsubs (world (run (bind ex_inst ''doc'' ex_doc_ref no_hooks ex_world)
         [Next (DocSnapshot (ex_snap ''a'' 1)), Fail ''offline'']))) (getStoreKey ''things'' ''a'') = None
   \<and> inst (run (bind ex_inst ''doc'' ex_doc_ref no_hooks ex_world)
         [Next (DocSnapshot (ex_snap ''a'' 1)), Fail ''offline''])
       = inst (run (bind ex_inst ''doc'' ex_doc_ref no_hooks ex_world) [Next (DocSnapshot (ex_snap ''a'' 1))])"
proof -
  have h: "returns_normally (DocSnapshot (ex_snap ''a'' 1)) (bind ex_inst ''doc'' ex_doc_ref no_hooks ex_world)"
    by (simp add: returns_normally_def updateHandler_def handleDocSnapshotUpdate_def bind_def
        store_def u_resolve_def throw_def ex_inst_def ex_doc_ref_def no_hooks_def ex_snap_def Let_def)
  have st: "settled (clo (run (bind ex_inst ''doc'' ex_doc_ref no_hooks ex_world)
         [Next (DocSnapshot (ex_snap ''a'' 1))])) = [Resolve (RDoc (makeDocumentData (ex_snap ''a'' 1)))]"
    using after_first_snapshot[OF h, of "[]"] by (simp add: ex_snap_def)
  have ids: "inst_id ex_inst = ''things''" "ref_id ex_doc_ref = ''a''"
    by (simp_all add: ex_inst_def ex_doc_ref_def)
  from error_after_first_snapshot[OF h, of "''offline''" "[]"] h st ids
  show ?thesis by simp
qed

theorem error_does_not_unsubscribe_counterexample:
  "fmlookup (unsubs (world (bind ex_inst ''doc'' ex_doc_ref no_hooks ex_world))) (getStoreKey ''things'' ''a'')
     = Some \<lparr>item_id = ''things'', item_name = ''a'', item_unsub = 0, item_type = Document\<rparr>
   \<and> 0 \<notin> set (unsubscribed (world (run (bind ex_inst ''doc'' ex_doc_ref no_hooks ex_world)
         [Next (DocSnapshot (ex_snap ''a'' 1)), Fail ''offline''])))"
  by (simp add: deliver_def updateHandler_def handleDocSnapshotUpdate_def handleError_def bind_def
      store_def remove_def logger_def u_resolve_def throw_def ex_inst_def ex_doc_ref_def no_hooks_def
      ex_world_def ex_snap_def getStoreKey_def Let_def)

section \<open>Paths: reading back what was written\<close>

lemma own_prop_isObject: "own_prop d k = Some w \<Longrightarrow> isObject d"
  by (cases d) simp_all

lemma own_prop_assign_same: "own_prop d k \<noteq> None \<Longrightarrow> own_prop (assign d k x) k = Some x"
  by (cases d) (auto split: option.splits if_splits)

lemma own_prop_assign_other_obj:
  "k \<noteq> p \<Longrightarrow> array_index p = None \<Longrightarrow> own_prop (assign d k x) p = own_prop d p"
  by (cases d) (auto split: option.splits)

lemma hasPath_isObject: "hasPath d ks \<Longrightarrow> isObject d"
  by (induction d ks rule: hasPath.induct) (auto dest: own_prop_isObject split: option.splits)

lemma isObject_not_null: "isObject d \<Longrightarrow> d \<noteq> JNull \<and> d \<noteq> JUndefined"
  by (cases d) simp_all

lemma isObject_assign: "isObject d \<Longrightarrow> isObject (assign d k x)"
  by (cases d) (auto split: option.splits)

lemma baseGet_baseSet: "hasPath d ks \<Longrightarrow> baseGet (baseSet d ks x) ks = x"
proof (induction d ks rule: hasPath.induct)
  case (1 object)
  then show ?case by simp
next
  case (2 object k)
  then have "own_prop (assign object k x) k = Some x"
    by (simp add: own_prop_assign_same)
  moreover from 2 have "isObject (assign object k x)"
    by (auto dest: own_prop_isObject intro: isObject_assign)
  ultimately show ?case
    by (auto simp: js_get_def dest: isObject_not_null)
next
  case (3 object k k' ks)
  then obtain w where w: "own_prop object k = Some w" "hasPath w (k' # ks)"
    by (auto split: option.splits)
  then have ow: "isObject w" by (auto dest: hasPath_isObject)
  from w have "isObject object" by (auto dest: own_prop_isObject)
  then have nn: "assign object k (baseSet w (k' # ks) x) \<noteq> JNull"
    "assign object k (baseSet w (k' # ks) x) \<noteq> JUndefined"
    using isObject_not_null[OF isObject_assign] by auto
  have "own_prop (assign object k (baseSet w (k' # ks) x)) k = Some (baseSet w (k' # ks) x)"
    using w by (simp add: own_prop_assign_same)
  then have "baseGet (assign object k (baseSet w (k' # ks) x)) (k # k' # ks)
        = baseGet (baseSet w (k' # ks) x) (k' # ks)"
    using nn by (simp add: js_get_def)
  also have "\<dots> = x" using 3 w by simp
  finally show ?case using w ow by (simp add: js_get_def Let_def)
qed

lemma stringToPath_hd: "\<exists>ks. stringToPath p = takeWhile (\<lambda>c. c \<noteq> CHR ''.'') p # ks"
  by (induction p) (auto split: list.splits)

lemma array_index_no_dot: "CHR ''.'' \<in> set p \<Longrightarrow> array_index p = None"
proof -
  assume "CHR ''.'' \<in> set p"
  moreover have "\<not> is_digit CHR ''.''" by (simp add: is_digit_def)
  ultimately have "\<not> list_all is_digit p" by (auto simp: list_all_iff)
  then show ?thesis by (simp add: array_index_def)
qed

lemma castPath_lodash_set:
  assumes "lodash_has d p"
  shows "castPath p (lodash_set d p x) = castPath p d"
proof (cases "CHR ''.'' \<notin> set p \<or> own_prop d p \<noteq> None")
  case True
  then have c: "castPath p d = [p]" by (simp add: castPath_def)
  with assms have "own_prop d p \<noteq> None" by (simp add: lodash_has_def)
  then have "own_prop (lodash_set d p x) p \<noteq> None"
    using c by (auto simp: lodash_set_def own_prop_assign_same)
  then show ?thesis using c by (simp add: castPath_def)
next
  case False
  then have dot: "CHR ''.'' \<in> set p" and no: "own_prop d p = None" by auto
  obtain ks where ks: "stringToPath p = takeWhile (\<lambda>c. c \<noteq> CHR ''.'') p # ks"
    using stringToPath_hd by blast
  let ?k = "takeWhile (\<lambda>c. c \<noteq> CHR ''.'') p"
  have ne: "?k \<noteq> p" using dot by (metis (mono_tags, lifting) set_takeWhileD)
  have c: "castPath p d = ?k # ks" using False ks by (simp add: castPath_def)
  have "\<exists>y. baseSet d (?k # ks) x = assign d ?k y"
    by (cases ks) (auto simp: Let_def)
  then obtain y where "baseSet d (?k # ks) x = assign d ?k y" by blast
  then have "own_prop (lodash_set d p x) p = own_prop d p"
    using c ne array_index_no_dot[OF dot]
    by (auto simp: lodash_set_def own_prop_assign_other_obj)
  then show ?thesis using False by (simp add: castPath_def)
qed

lemma lodash_get_set:
  assumes "lodash_has d p"
  shows "lodash_get (lodash_set d p x) p = x"
proof -
  have h: "hasPath d (castPath p d)" using assms by (simp add: lodash_has_def)
  then have "isObject d" by (rule hasPath_isObject)
  then have "lodash_set d p x = baseSet d (castPath p d) x" by (simp add: lodash_set_def)
  then show ?thesis
    using baseGet_baseSet[OF h] castPath_lodash_set[OF assms, of x] by (simp add: lodash_get_def)
qed




section \<open>Updating a field\<close>

lemma u_runHandler_returns:
  "handler_returns cfg name args \<Longrightarrow>
     \<exists>r. u_runHandler cfg name args s
           = (Returns r, s\<lparr>handler_calls := handler_calls s @ handler_call cfg name args\<rparr>)"
  by (auto simp: handler_returns_def u_runHandler_def handler_call_def resolve_handler_def
      split: option.splits outcome.splits local_option.splits)

lemma u_runHandler_throws:
  "handler_throws cfg name args e \<Longrightarrow>
     u_runHandler cfg name args s
       = (Throws e, s\<lparr>handler_calls := handler_calls s @ [(name, args)]\<rparr>)"
  by (auto simp: handler_throws_def u_runHandler_def resolve_handler_def
      split: option.splits local_option.splits)



lemma u_runHandler_frame:
  "state (snd (u_runHandler cfg name args s)) = state s
   \<and> env (snd (u_runHandler cfg name args s)) = env s
   \<and> (\<exists>cs. handler_calls (snd (u_runHandler cfg name args s)) = handler_calls s @ cs)"
  by (simp add: u_runHandler_def split: option.splits)

lemma d_getRef_frame:
  "state (snd (d_getRef a s)) = state s
   \<and> handler_calls (snd (d_getRef a s)) = handler_calls s
   \<and> remote (env (snd (d_getRef a s))) = remote (env s)"
  by (simp add: d_getRef_def error_log_def logger_def Let_def split: promise.splits)

lemma u_updateDoc_frame:
  "state (snd (u_updateDoc cfg i data s)) = state s
   \<and> (\<exists>cs. handler_calls (snd (u_updateDoc cfg i data s)) = handler_calls s @ cs)"
proof -
  obtain g s1 where g: "d_getRef i s = (g, s1)" by (cases "d_getRef i s")
  obtain o2 s2 where a: "u_appendToUpdated cfg s1 = (o2, s2)" by (cases "u_appendToUpdated cfg s1")
  have f1: "state s1 = state s" "handler_calls s1 = handler_calls s"
    using d_getRef_frame[of i s] g by simp_all
  have f2: "state s2 = state s1" "\<exists>cs. handler_calls s2 = handler_calls s1 @ cs"
    using u_runHandler_frame[of cfg AppendToUpdated "[]" s1] a
    by (simp_all add: u_appendToUpdated_def)
  show ?thesis
    using f1 f2
    by (auto simp: u_updateDoc_def g a error_log_def Let_def
        split: promise.splits option.splits outcome.splits remote_result.splits)
qed

lemma d_sync_frame:
  "state (snd (d_sync cfg k s)) = state s
   \<and> (\<exists>cs. handler_calls (snd (d_sync cfg k s)) = handler_calls s @ cs)"
  using u_updateDoc_frame
  by (simp add: d_sync_def u_sync_def Let_def split: option.splits)


lemma u_update_catch_returns:
  assumes "handler_returns cfg OnValidationError [JStr (cfg_id cfg), JStr p, JStr e]"
  shows "u_update_catch cfg p e s =
           (Fulfilled False,
            (error_log [e] s)\<lparr>handler_calls := handler_calls s @
               handler_call cfg OnValidationError [JStr (cfg_id cfg), JStr p, JStr e]\<rparr>)"
proof -
  from u_runHandler_returns[OF assms, of "error_log [e] s"]
  obtain r where "u_onValidationError cfg p e (error_log [e] s)
      = (Returns r, (error_log [e] s)\<lparr>handler_calls := handler_calls (error_log [e] s) @
               handler_call cfg OnValidationError [JStr (cfg_id cfg), JStr p, JStr e]\<rparr>)"
    by (auto simp: u_onValidationError_def)
  then show ?thesis by (simp add: u_update_catch_def error_log_def)
qed

lemma u_update_catch_throws:
  assumes "handler_throws cfg OnValidationError [JStr (cfg_id cfg), JStr p, JStr e] e'"
  shows "fst (u_update_catch cfg p e s) = Rejected e'"
  by (simp add: u_update_catch_def u_onValidationError_def u_runHandler_throws[OF assms])




section \<open>A failure after the write\<close>

lemma u_update_try_success_throws:
  assumes "validation cfg p (lodash_set (doc (state s)) p v) = None"
    and "handler_throws cfg OnValidationSuccess [JStr (cfg_id cfg), JStr p] e"
  shows "u_update_try cfg ThisDoc p v shouldSync s =
           (Inl e, s\<lparr>state := (state s)\<lparr>doc := lodash_set (doc (state s)) p v\<rparr>,
                     handler_calls := handler_calls s @ [(OnValidationSuccess, [JStr (cfg_id cfg), JStr p])]\<rparr>)"
  using assms(1)
  by (simp add: u_update_try_def deref_def cloneDeep_def write_back_def u_onValidationSuccess_def
      u_runHandler_throws[OF assms(2)])

lemma u_update_try_sync_rejects:
  assumes "validation cfg p (lodash_set (doc (state s)) p v) = None"
    and "handler_returns cfg OnValidationSuccess [JStr (cfg_id cfg), JStr p]"
    and "fst (d_sync cfg (OneKey p)
           (snd (u_onValidationSuccess cfg p
                  (s\<lparr>state := (state s)\<lparr>doc := lodash_set (doc (state s)) p v\<rparr>\<rparr>)))) = Rejected e"
  shows "u_update_try cfg ThisDoc p v True s =
           (Inl e, snd (d_sync cfg (OneKey p)
              (snd (u_onValidationSuccess cfg p
                     (s\<lparr>state := (state s)\<lparr>doc := lodash_set (doc (state s)) p v\<rparr>\<rparr>)))))"
proof -
  let ?s1 = "s\<lparr>state := (state s)\<lparr>doc := lodash_set (doc (state s)) p v\<rparr>\<rparr>"
  from u_runHandler_returns[OF assms(2), of ?s1]
  obtain r where r: "u_onValidationSuccess cfg p ?s1 =
      (Returns r, ?s1\<lparr>handler_calls := handler_calls ?s1 @
          handler_call cfg OnValidationSuccess [JStr (cfg_id cfg), JStr p]\<rparr>)"
    by (auto simp: u_onValidationSuccess_def)
  obtain q s3 where q: "d_sync cfg (OneKey p) (snd (u_onValidationSuccess cfg p ?s1)) = (q, s3)"
    by (cases "d_sync cfg (OneKey p) (snd (u_onValidationSuccess cfg p ?s1))")
  with assms(3) have "q = Rejected e" by simp
  with q r assms(1) show ?thesis
    by (simp add: u_update_try_def deref_def cloneDeep_def write_back_def)
qed

text \<open>
  C10 (as the code has it).  Let the path be present, the new value differ from the value
  at the path, and validation of the prospective write succeed, so that the new value is
  written to the document.  If then the validation-success callback throws, or it returns
  and the remote sync that follows (\<open>shouldSync\<close>) throws, and the validation-error
  callback, if one is configured, returns, then \<open>$update\<close> returns false although the
  document has been changed: it holds the new value at the path and differs from the
  document before the call.  A configured validation-error callback has been called, last
  of all callbacks, with the store id, the path and the message of the error thrown, and
  that message has been logged as an error.
\<close>

theorem failure_after_write_returns_false:
  fixes cfg :: config and s :: store_sys and p :: string and v :: jsval and e :: string
    and shouldSync :: bool
  assumes "lodash_has (doc (state s)) p"
    and "\<not> isEqual (lodash_get (doc (state s)) p) v"
    and "validation cfg p (lodash_set (doc (state s)) p v) = None"
    and "handler_returns cfg OnValidationError [JStr (cfg_id cfg), JStr p, JStr e]"
    and "handler_throws cfg OnValidationSuccess [JStr (cfg_id cfg), JStr p] e
         \<or> (handler_returns cfg OnValidationSuccess [JStr (cfg_id cfg), JStr p] \<and> shouldSync
            \<and> fst (d_sync cfg (OneKey p)
                 (snd (u_onValidationSuccess cfg p
                    (s\<lparr>state := (state s)\<lparr>doc := lodash_set (doc (state s)) p v\<rparr>\<rparr>)))) = Rejected e)"
  defines "r \<equiv> d_update cfg p v shouldSync s"
  shows "fst r = Fulfilled False
       \<and> doc (state (snd r)) = lodash_set (doc (state s)) p v
       \<and> lodash_get (doc (state (snd r))) p = v
       \<and> doc (state (snd r)) \<noteq> doc (state s)
       \<and> (\<exists>cs. handler_calls (snd r) = handler_calls s @ cs @
              handler_call cfg OnValidationError [JStr (cfg_id cfg), JStr p, JStr e])
       \<and> (Error, [e]) \<in> set (log (env (snd r)))"
proof -
  let ?s1 = "s\<lparr>state := (state s)\<lparr>doc := lodash_set (doc (state s)) p v\<rparr>\<rparr>"
  let ?hc = "handler_call cfg OnValidationError [JStr (cfg_id cfg), JStr p, JStr e]"
  have "\<exists>s2. u_update_try cfg ThisDoc p v shouldSync s = (Inl e, s2)
          \<and> state s2 = state ?s1 \<and> (\<exists>cs. handler_calls s2 = handler_calls s @ cs)"
  proof (cases "handler_throws cfg OnValidationSuccess [JStr (cfg_id cfg), JStr p] e")
    case True
    show ?thesis
      by (simp add: u_update_try_success_throws[OF assms(3) True])
  next
    case False
    with assms(5) have ret: "handler_returns cfg OnValidationSuccess [JStr (cfg_id cfg), JStr p]"
      and sync: "shouldSync"
      and rej: "fst (d_sync cfg (OneKey p) (snd (u_onValidationSuccess cfg p ?s1))) = Rejected e"
      by auto
    let ?s2 = "snd (u_onValidationSuccess cfg p ?s1)"
    have a: "state ?s2 = state ?s1" "\<exists>cs. handler_calls ?s2 = handler_calls s @ cs"
      using u_runHandler_frame[of cfg OnValidationSuccess "[JStr (cfg_id cfg), JStr p]" ?s1]
      by (simp_all add: u_onValidationSuccess_def)
    have b: "state (snd (d_sync cfg (OneKey p) ?s2)) = state ?s2"
      "\<exists>cs. handler_calls (snd (d_sync cfg (OneKey p) ?s2)) = handler_calls ?s2 @ cs"
      using d_sync_frame[of cfg "OneKey p" ?s2] by simp_all
    from a(2) b(2) have "\<exists>cs. handler_calls (snd (d_sync cfg (OneKey p) ?s2)) = handler_calls s @ cs"
      by auto
    then show ?thesis
      using u_update_try_sync_rejects[OF assms(3) ret rej] sync a(1) b(1) by simp
  qed
  then obtain s2 cs where tr: "u_update_try cfg ThisDoc p v shouldSync s = (Inl e, s2)"
    and st: "state s2 = state ?s1" and hc: "handler_calls s2 = handler_calls s @ cs"
    by blast
  have r: "r = u_update_catch cfg p e s2"
    unfolding r_def using assms(1,2) tr
    by (simp add: d_update_def u_update_def deref_def d_get_def Let_def)
  have res: "r = (Fulfilled False, (error_log [e] s2)\<lparr>handler_calls := handler_calls s2 @ ?hc\<rparr>)"
    unfolding r by (rule u_update_catch_returns[OF assms(4)])
  have d: "doc (state (snd r)) = lodash_set (doc (state s)) p v"
    by (simp add: res error_log_def st)
  have g: "lodash_get (doc (state (snd r))) p = v"
    unfolding d by (rule lodash_get_set[OF assms(1)])
  have ne: "doc (state (snd r)) \<noteq> doc (state s)"
    using g assms(2) by (auto simp: isEqual_def)
  have "handler_calls (snd r) = handler_calls s @ cs @ ?hc"
    by (simp add: res hc)
  moreover have "(Error, [e]) \<in> set (log (env (snd r)))"
    by (simp add: res error_log_def logger_def)
  ultimately show ?thesis using d g ne by (auto simp: res)
qed
lemma ex_store_doc: "doc (state ex_store) = ex_default"
  by (simp add: ex_store_def fresh_store_def initial_state_def ex_cfg_def ex_schema_def ex_default_def)

lemma castPath_testValue: "castPath ''testValue'' x = [''testValue'']"
  by (simp add: castPath_def)

lemma ex_has_testValue: "lodash_has (doc (state ex_store)) ''testValue''"
  unfolding ex_store_doc lodash_has_def castPath_testValue by (simp add: ex_default_def)

lemma ex_testValue_changes: "n \<noteq> 50 \<Longrightarrow> \<not> isEqual (lodash_get (doc (state ex_store)) ''testValue'') (JNum n)"
  unfolding ex_store_doc lodash_get_def castPath_testValue
  by (simp add: ex_default_def isEqual_def js_get_def)

lemma ex_validate_99:
  "ex_validate ''testValue'' (lodash_set (doc (state ex_store)) ''testValue'' (JNum 99)) = None"
  unfolding ex_store_doc
  by (simp add: ex_validate_def lodash_set_def lodash_get_def castPath_testValue ex_default_def js_get_def)

theorem failure_after_write_witness:
  "lodash_has (doc (state ex_store)) ''testValue''
   \<and> \<not> isEqual (lodash_get (doc (state ex_store)) ''testValue'') (JNum 99)
   \<and> validation ex_cfg_success_handler_throws ''testValue''
        (lodash_set (doc (state ex_store)) ''testValue'' (JNum 99)) = None
   \<and> handler_returns ex_cfg_success_handler_throws OnValidationError
        [JStr (cfg_id ex_cfg_success_handler_throws), JStr ''testValue'', JStr ''handler failed'']
   \<and> handler_throws ex_cfg_success_handler_throws OnValidationSuccess
        [JStr (cfg_id ex_cfg_success_handler_throws), JStr ''testValue''] ''handler failed''
   \<and> fst (d_update ex_cfg_success_handler_throws ''testValue'' (JNum 99) False ex_store) = Fulfilled False
   \<and> lodash_get (doc (state (snd (d_update ex_cfg_success_handler_throws ''testValue'' (JNum 99) False ex_store))))
        ''testValue'' = JNum 99
   \<and> doc (state (snd (d_update ex_cfg_success_handler_throws ''testValue'' (JNum 99) False ex_store)))
        \<noteq> doc (state ex_store)
   \<and> lodash_has (doc (state ex_store_a)) ''testValue''
   \<and> \<not> isEqual (lodash_get (doc (state ex_store_a)) ''testValue'') (JNum 99)
   \<and> validation ex_cfg_append_throws ''testValue''
        (lodash_set (doc (state ex_store_a)) ''testValue'' (JNum 99)) = None
   \<and> handler_returns ex_cfg_append_throws OnValidationSuccess
        [JStr (cfg_id ex_cfg_append_throws), JStr ''testValue'']
   \<and> fst (d_sync ex_cfg_append_throws (OneKey ''testValue'')
        (snd (u_onValidationSuccess ex_cfg_append_throws ''testValue''
           (ex_store_a\<lparr>state := (state ex_store_a)\<lparr>doc :=
              lodash_set (doc (state ex_store_a)) ''testValue'' (JNum 99)\<rparr>\<rparr>)))) = Rejected ''handler failed''
   \<and> fst (d_update ex_cfg_append_throws ''testValue'' (JNum 99) True ex_store_a) = Fulfilled False
   \<and> lodash_get (doc (state (snd (d_update ex_cfg_append_throws ''testValue'' (JNum 99) True ex_store_a))))
        ''testValue'' = JNum 99"
proof -
  have e: "\<not> isEqual (lodash_get (doc (state ex_store)) ''testValue'') (JNum 99)"
    by (rule ex_testValue_changes) simp
  have i: "validation ex_cfg_success_handler_throws ''testValue''
        (lodash_set (doc (state ex_store)) ''testValue'' (JNum 99)) = None"
    by (simp add: validation_def ex_cfg_success_handler_throws_def ex_cfg_def ex_schema_def ex_validate_99)
  have g: "handler_returns ex_cfg_success_handler_throws OnValidationError
        [JStr (cfg_id ex_cfg_success_handler_throws), JStr ''testValue'', JStr ''handler failed'']"
    by (simp add: handler_returns_def resolve_handler_def ex_cfg_success_handler_throws_def
        ex_cfg_def quiet_def)
  have t: "handler_throws ex_cfg_success_handler_throws OnValidationSuccess
        [JStr (cfg_id ex_cfg_success_handler_throws), JStr ''testValue''] ''handler failed''"
    by (simp add: handler_throws_def resolve_handler_def ex_cfg_success_handler_throws_def
        ex_cfg_def failing_def)
  note first = failure_after_write_returns_false[OF ex_has_testValue e i g disjI1[OF t], of False]
  have da: "doc (state ex_store_a) = ex_doc_a" by (simp add: ex_store_a_def)
  have ha: "lodash_has (doc (state ex_store_a)) ''testValue''"
    unfolding da lodash_has_def castPath_testValue by (simp add: ex_doc_a_def)
  have ea: "\<not> isEqual (lodash_get (doc (state ex_store_a)) ''testValue'') (JNum 99)"
    unfolding da lodash_get_def castPath_testValue by (simp add: ex_doc_a_def isEqual_def js_get_def)
  have set_a: "lodash_set ex_doc_a ''testValue'' (JNum 99)
        = JObj (fmupd ''testValue'' (JNum 99) (fmap_of_list
           [(''__id'', JStr ''a''), (''__path'', JStr ''testCollection/a''), (''__metadata'', JNull),
            (''title'', JStr ''New Title''), (''testValue'', JNum 20)]))"
    by (simp add: lodash_set_def castPath_testValue ex_doc_a_def)
  have ia: "validation ex_cfg_append_throws ''testValue''
        (lodash_set (doc (state ex_store_a)) ''testValue'' (JNum 99)) = None"
    unfolding da set_a
    by (simp add: validation_def ex_cfg_append_throws_def ex_cfg_def ex_schema_def ex_validate_def
        lodash_get_def castPath_testValue js_get_def)
  have ga: "handler_returns ex_cfg_append_throws OnValidationError
        [JStr (cfg_id ex_cfg_append_throws), JStr ''testValue'', JStr ''handler failed'']"
    by (simp add: handler_returns_def resolve_handler_def ex_cfg_append_throws_def ex_cfg_def quiet_def)
  have ra: "handler_returns ex_cfg_append_throws OnValidationSuccess
        [JStr (cfg_id ex_cfg_append_throws), JStr ''testValue'']"
    by (simp add: handler_returns_def resolve_handler_def ex_cfg_append_throws_def ex_cfg_def quiet_def)
  have sa: "fst (d_sync ex_cfg_append_throws (OneKey ''testValue'')
        (snd (u_onValidationSuccess ex_cfg_append_throws ''testValue''
           (ex_store_a\<lparr>state := (state ex_store_a)\<lparr>doc :=
              lodash_set (doc (state ex_store_a)) ''testValue'' (JNum 99)\<rparr>\<rparr>)))) = Rejected ''handler failed''"
    unfolding da set_a
    by (simp add: d_sync_def u_sync_def u_updateDoc_def d_getRef_def u_getRef_def
        u_onValidationSuccess_def u_appendToUpdated_def u_runHandler_def resolve_handler_def
        ex_cfg_append_throws_def ex_cfg_def quiet_def failing_def js_get_def Let_def)
  note second = failure_after_write_returns_false[OF ha ea ia ga disjI2, of True, OF conjI[OF ra conjI[OF TrueI sa]]]
  from first second ex_has_testValue e i g t ha ea ia ra sa
  show ?thesis by blast
qed

theorem failure_after_write_counterexample:
  "lodash_has (doc (state ex_store)) ''testValue''
   \<and> validation ex_cfg_both_handlers_throw ''testValue''
        (lodash_set (doc (state ex_store)) ''testValue'' (JNum 99)) = None
   \<and> handler_throws ex_cfg_both_handlers_throw OnValidationSuccess
        [JStr (cfg_id ex_cfg_both_handlers_throw), JStr ''testValue''] ''handler failed''
   \<and> fst (d_update ex_cfg_both_handlers_throw ''testValue'' (JNum 99) False ex_store)
        = Rejected ''handler failed''"
proof -
  have e: "\<not> isEqual (lodash_get (doc (state ex_store)) ''testValue'') (JNum 99)"
    by (rule ex_testValue_changes) simp
  have i: "validation ex_cfg_both_handlers_throw ''testValue''
        (lodash_set (doc (state ex_store)) ''testValue'' (JNum 99)) = None"
    by (simp add: validation_def ex_cfg_both_handlers_throw_def ex_cfg_def ex_schema_def ex_validate_99)
  have t: "handler_throws ex_cfg_both_handlers_throw OnValidationSuccess
        [JStr (cfg_id ex_cfg_both_handlers_throw), JStr ''testValue''] ''handler failed''"
    by (simp add: handler_throws_def resolve_handler_def ex_cfg_both_handlers_throw_def
        ex_cfg_def failing_def)
  have t': "handler_throws ex_cfg_both_handlers_throw OnValidationError
        [JStr (cfg_id ex_cfg_both_handlers_throw), JStr ''testValue'', JStr ''handler failed'']
        ''handler failed''"
    by (simp add: handler_throws_def resolve_handler_def ex_cfg_both_handlers_throw_def
        ex_cfg_def failing_def)
  have "fst (d_update ex_cfg_both_handlers_throw ''testValue'' (JNum 99) False ex_store)
        = Rejected ''handler failed''"
    using ex_has_testValue e
    by (simp add: d_update_def u_update_def deref_def d_get_def Let_def
        u_update_try_success_throws[OF i t] u_update_catch_throws[OF t'])
  with ex_has_testValue i t show ?thesis by simp
qed

section \<open>arrayUnion\<close>






lemma castPath_plain: "CHR ''.'' \<notin> set p \<Longrightarrow> castPath p x = [p]"
  by (simp add: castPath_def)





section \<open>Persisting named fields\<close>













section \<open>The lifecycle of a store instance\<close>

lemma lifecycle_inv_fresh: "lifecycle_inv cfg (fresh_store cfg w)"
  by (simp add: lifecycle_inv_def fresh_store_def initial_state_def)

lemma lifecycle_inv_use_store:
  "lifecycle_inv cfg s \<Longrightarrow> lifecycle_inv cfg (snd (use_store cfg s))"
  by (cases "u_initializedState (state s)")
     (auto simp: lifecycle_inv_def use_store_def onInitialized_def error_log_def Let_def
      split: option.splits init_result.splits)

lemma lifecycle_inv_step:
  "lifecycle_inv cfg s \<Longrightarrow> lifecycle_inv cfg (lifecycle_step cfg ev s)"
proof (cases ev)
  case UseStore
  assume "lifecycle_inv cfg s"
  then show ?thesis using UseStore by (simp add: lifecycle_step_def lifecycle_inv_use_store)
next
  case InitFulfilled
  assume "lifecycle_inv cfg s"
  then show ?thesis using InitFulfilled
    by (auto simp: lifecycle_step_def lifecycle_inv_def onInitialized_def)
next
  case InitRejected
  assume "lifecycle_inv cfg s"
  then show ?thesis using InitRejected
    by (auto simp: lifecycle_step_def lifecycle_inv_def)
qed

lemma lifecycle_inv_run:
  "lifecycle_inv cfg s \<Longrightarrow> lifecycle_inv cfg (lifecycle_run cfg s evs)"
  by (induction evs arbitrary: s) (simp_all add: lifecycle_inv_step)

lemma use_store_monotonic:
  "lifecycle_inv cfg s \<Longrightarrow>
     rank (u_initializedState (state s)) \<le> rank (u_initializedState (state (snd (use_store cfg s))))"
  by (cases "u_initializedState (state s)")
     (auto simp: lifecycle_inv_def use_store_def onInitialized_def error_log_def Let_def
      split: option.splits init_result.splits)

lemma lifecycle_step_monotonic:
  "lifecycle_inv cfg s \<Longrightarrow>
     rank (u_initializedState (state s))
       \<le> rank (u_initializedState (state (lifecycle_step cfg ev s)))"
proof (cases ev)
  case UseStore
  assume "lifecycle_inv cfg s"
  then show ?thesis using UseStore by (simp add: lifecycle_step_def use_store_monotonic)
next
  case InitFulfilled
  show ?thesis using InitFulfilled
    by (cases "u_initializedState (state s)") (simp_all add: lifecycle_step_def onInitialized_def)
next
  case InitRejected
  show ?thesis using InitRejected by (simp add: lifecycle_step_def)
qed

lemma use_store_started:
  assumes "lifecycle_inv cfg s" and "u_initializedState (state s) \<noteq> UNINITIALIZED"
  shows "state (snd (use_store cfg s)) = state s
       \<and> initializer_calls (snd (use_store cfg s)) = initializer_calls s"
  using assms
  by (cases "u_initializedState (state s)")
     (auto simp: lifecycle_inv_def use_store_def error_log_def)

lemma use_store_after_reset:
  assumes "db_installed cfg" and "initialize cfg \<noteq> None"
  shows "initializer_calls (snd (use_store cfg (d_reset cfg s))) = Suc (initializer_calls s)"
  using assms
  by (auto simp: use_store_def d_reset_def initial_state_def onInitialized_def Let_def
      split: init_result.splits)

lemma d_delete_resets:
  "fst (d_delete cfg s) = Fulfilled True \<Longrightarrow> state (snd (d_delete cfg s)) = initial_state cfg"
  by (auto simp: d_delete_def d_reset_def
      split: prod.splits promise.splits option.splits sum.splits remote_result.splits)

text \<open>
  C8 (as the code has it).  Take an instance that started fresh and has since seen any
  calls of the store accessor and any settling of initializer promises, but no reset of
  its state.  Then no further such step moves the lifecycle state backwards along
  UNINITIALIZED, INITITALIZING, INITIALIZED; the initializer has been called at most once;
  a call of the accessor that finds the state INITITALIZING or INITIALIZED changes no
  state and does not call the initializer; and the state is INITIALIZED only if there is
  no initializer or a run of the initializer has completed (it returned, or its promise
  was fulfilled).  A reset of the state, as a successful \<open>$delete\<close> performs it, puts the
  lifecycle state back to UNINITIALIZED, and the next call of the accessor then calls the
  initializer once more.
\<close>

theorem lifecycle_monotonic_without_reset:
  fixes cfg :: config and w :: world and evs :: "lifecycle_event list" and ev :: lifecycle_event
  defines "s \<equiv> lifecycle_run cfg (fresh_store cfg w) evs"
  shows "rank (u_initializedState (state s))
           \<le> rank (u_initializedState (state (lifecycle_step cfg ev s)))
       \<and> initializer_calls s \<le> 1
       \<and> (u_initializedState (state s) \<noteq> UNINITIALIZED \<longrightarrow>
            state (snd (use_store cfg s)) = state s
            \<and> initializer_calls (snd (use_store cfg s)) = initializer_calls s)
       \<and> (u_initializedState (state s) = INITIALIZED \<longrightarrow>
            initialize cfg = None \<or> 0 < init_completed s)
       \<and> u_initializedState (state (d_reset cfg s)) = UNINITIALIZED
       \<and> (fst (d_delete cfg s) = Fulfilled True \<longrightarrow>
            u_initializedState (state (snd (d_delete cfg s))) = UNINITIALIZED)
       \<and> (db_installed cfg \<and> initialize cfg \<noteq> None \<longrightarrow>
            initializer_calls (snd (use_store cfg (d_reset cfg s))) = Suc (initializer_calls s))"
proof -
  have inv: "lifecycle_inv cfg s"
    unfolding s_def by (rule lifecycle_inv_run[OF lifecycle_inv_fresh])
  then have "initializer_calls s \<le> 1"
    and "u_initializedState (state s) = INITIALIZED \<longrightarrow> initialize cfg = None \<or> 0 < init_completed s"
    by (simp_all add: lifecycle_inv_def)
  moreover have "u_initializedState (state (d_reset cfg s)) = UNINITIALIZED"
    by (simp add: d_reset_def initial_state_def)
  moreover have "fst (d_delete cfg s) = Fulfilled True \<longrightarrow>
            u_initializedState (state (snd (d_delete cfg s))) = UNINITIALIZED"
    by (auto dest: d_delete_resets simp: initial_state_def)
  ultimately show ?thesis
    using lifecycle_step_monotonic[OF inv, of ev] use_store_started[OF inv]
      use_store_after_reset[of cfg s] by blast
qed

theorem lifecycle_witness:
  "u_initializedState (state (lifecycle_run ex_cfg_deferred (fresh_store ex_cfg_deferred ex_world) []))
     = UNINITIALIZED
   \<and> u_initializedState (state (lifecycle_run ex_cfg_deferred (fresh_store ex_cfg_deferred ex_world) [UseStore]))
     = INITITALIZING
   \<and> u_initializedState (state (lifecycle_run ex_cfg_deferred (fresh_store ex_cfg_deferred ex_world)
        [UseStore, UseStore, InitFulfilled])) = INITIALIZED
   \<and> initialize ex_cfg_deferred \<noteq> None \<and> db_installed ex_cfg_deferred
   \<and> 0 < init_completed (lifecycle_run ex_cfg_deferred (fresh_store ex_cfg_deferred ex_world)
        [UseStore, UseStore, InitFulfilled])
   \<and> initializer_calls (snd (use_store ex_cfg_deferred
        (lifecycle_run ex_cfg_deferred (fresh_store ex_cfg_deferred ex_world) [UseStore, UseStore, InitFulfilled])))
     = initializer_calls (lifecycle_run ex_cfg_deferred (fresh_store ex_cfg_deferred ex_world)
        [UseStore, UseStore, InitFulfilled])
   \<and> initializer_calls (lifecycle_run ex_cfg_deferred (fresh_store ex_cfg_deferred ex_world)
        [UseStore, UseStore, InitFulfilled]) = 1
   \<and> initializer_calls (snd (use_store ex_cfg_deferred (d_reset ex_cfg_deferred
        (lifecycle_run ex_cfg_deferred (fresh_store ex_cfg_deferred ex_world)
           [UseStore, UseStore, InitFulfilled])))) = 2"
proof -
  let ?s0 = "fresh_store ex_cfg_deferred ex_world"
  have c: "db_installed ex_cfg_deferred" "initialize ex_cfg_deferred = Some init_promise"
    by (simp_all add: ex_cfg_deferred_def ex_cfg_def)
  have a: "u_initializedState (state (lifecycle_run ex_cfg_deferred ?s0 [])) = UNINITIALIZED"
    by (simp add: fresh_store_def initial_state_def)
  have b: "u_initializedState (state (lifecycle_run ex_cfg_deferred ?s0 [UseStore])) = INITITALIZING"
    by (simp add: lifecycle_step_def use_store_def c fresh_store_def initial_state_def Let_def)
  have d: "u_initializedState (state (lifecycle_run ex_cfg_deferred ?s0 [UseStore, UseStore, InitFulfilled]))
         = INITIALIZED"
    and n: "initializer_calls (lifecycle_run ex_cfg_deferred ?s0 [UseStore, UseStore, InitFulfilled]) = 1"
    by (simp_all add: lifecycle_step_def use_store_def c fresh_store_def initial_state_def
        onInitialized_def Let_def)
  from lifecycle_monotonic_without_reset[of ex_cfg_deferred ex_world "[UseStore, UseStore, InitFulfilled]" UseStore]
    a b d n c
  show ?thesis by simp
qed

theorem delete_resets_lifecycle_counterexample:
  "u_initializedState (state (snd (use_store ex_cfg ex_store_bound))) = INITIALIZED
   \<and> initializer_calls (snd (use_store ex_cfg ex_store_bound)) = 1
   \<and> fst (d_delete ex_cfg (snd (use_store ex_cfg ex_store_bound))) = Fulfilled True
   \<and> u_initializedState (state (snd (d_delete ex_cfg (snd (use_store ex_cfg ex_store_bound)))))
       = UNINITIALIZED
   \<and> initializer_calls (snd (use_store ex_cfg
        (snd (d_delete ex_cfg (snd (use_store ex_cfg ex_store_bound)))))) = 2"
proof -
  have c: "db_installed ex_cfg" "initialize ex_cfg = Some init_returns" "cfg_id ex_cfg = ''test''"
    "deleteDoc_result ex_cfg = delete_acknowledged"
    by (simp_all add: ex_cfg_def)
  have s0: "u_initializedState (state ex_store_bound) = UNINITIALIZED"
    "\<not> isInitialized (state ex_store_bound)" "initializer_calls ex_store_bound = 0"
    "doc (state ex_store_bound) = ex_doc_a"
    by (simp_all add: ex_store_bound_def ex_store_a_def ex_store_def fresh_store_def initial_state_def)
  define s1 where "s1 = snd (use_store ex_cfg ex_store_bound)"
  have s1: "u_initializedState (state s1) = INITIALIZED" "initializer_calls s1 = 1"
    "doc (state s1) = ex_doc_a" "env s1 = env ex_store_bound"
    by (simp_all add: s1_def use_store_def c s0 onInitialized_def Let_def)
  have r: "d_getRef JUndefined s1 =
      (Fulfilled (Some \<lparr>ref_id = ''a'', ref_type = Document,
                        ref_path = u_collectionPath (state s1) @ ''/'' @ ''a''\<rparr>), s1)"
    by (simp add: d_getRef_def u_getRef_def s1 ex_doc_a_def js_get_def)
  have u: "\<exists>w. unbind ''test'' \<lparr>ref_id = ''a'', ref_type = Document,
                        ref_path = u_collectionPath (state s1) @ ''/'' @ ''a''\<rparr> (env s1) = Inr w"
    by (simp add: unbind_def pick_def s1 ex_store_bound_def store_def logger_def Let_def)
  define s2 where "s2 = snd (d_delete ex_cfg s1)"
  have d: "fst (d_delete ex_cfg s1) = Fulfilled True" and s2: "state s2 = initial_state ex_cfg"
    "initializer_calls s2 = 1"
    using u by (auto simp: s2_def d_delete_def r c d_reset_def s1)
  have s2': "u_initializedState (state s2) = UNINITIALIZED" "\<not> isInitialized (state s2)"
    by (simp_all add: s2 initial_state_def)
  have "initializer_calls (snd (use_store ex_cfg s2)) = 2"
    by (simp add: use_store_def c s2' s2 onInitialized_def initial_state_def Let_def)
  then show ?thesis
    using s1 d s2' by (simp add: s1_def s2_def)
qed

section \<open>The proxy\<close>

text \<open>
  C6.  The claim fails on the store of store.js.  The default document declares \<open>title\<close>
  with the empty string as its value; a proxy read of \<open>title\<close> tests the value for
  truthiness, finds it falsy and returns the store instance's own property, which is
  undefined, where the handler of the first store variant (\<open>has(store.doc, prop)\<close>) returns
  the document's value.  In the same way a proxy write to a property that the document
  declares with the value undefined goes to the store instance and leaves the document
  as it was.
\<close>

theorem proxy_misses_falsy_document_fields:
  "declares (i_doc ex_view) ''title''
   \<and> js_get (i_doc ex_view) ''title'' = JStr []
   \<and> proxy_get ex_view ''title'' = JUndefined
   \<and> proxy_get_has ex_view ''title'' = JStr []
   \<and> declares (i_doc ex_view_undefined) ''note''
   \<and> i_doc (proxy_set ex_view_undefined ''note'' (JStr ''x'')) = i_doc ex_view_undefined
   \<and> fmlookup (i_props (proxy_set ex_view_undefined ''note'' (JStr ''x''))) ''note'' = Some (JStr ''x'')
   \<and> i_doc (proxy_set_has ex_view_undefined ''note'' (JStr ''x''))
        = JObj (fmap_of_list [(''note'', JStr ''x'')])"
proof -
  have a: "declares (i_doc ex_view) ''title''" "js_get (i_doc ex_view) ''title'' = JStr []"
    by (simp_all add: declares_def ex_view_def ex_default_def js_get_def)
  have b: "proxy_get ex_view ''title'' = JUndefined"
    unfolding proxy_get_def a by (simp add: reflect_get_def ex_view_def)
  have h: "lodash_has (i_doc ex_view) ''title''"
    by (simp add: lodash_has_def castPath_plain ex_view_def ex_default_def)
  have c: "proxy_get_has ex_view ''title'' = JStr []"
    by (simp add: proxy_get_has_def a h)
  have d: "declares (i_doc ex_view_undefined) ''note''"
    "js_get (i_doc ex_view_undefined) ''note'' = JUndefined"
    by (simp_all add: declares_def ex_view_undefined_def js_get_def)
  have e: "proxy_set ex_view_undefined ''note'' (JStr ''x'')
        = ex_view_undefined\<lparr>i_props := fmupd ''note'' (JStr ''x'') (i_props ex_view_undefined)\<rparr>"
    by (simp add: proxy_set_def d store_set_def)
  have h': "lodash_has (i_doc ex_view_undefined) ''note''"
    by (simp add: lodash_has_def castPath_plain ex_view_undefined_def)
  have f: "i_doc (proxy_set_has ex_view_undefined ''note'' (JStr ''x''))
        = JObj (fmap_of_list [(''note'', JStr ''x'')])"
    by (simp add: proxy_set_has_def h') (simp add: ex_view_undefined_def)
  from a b c d(1) e f show ?thesis by simp
qed

end
